theory Spec2Isabelle
  imports Main
begin

section \<open>ID token validation of the OpenID Connect relying party (jms_oidc_rp/utils.py)\<close>

text \<open>
  The development embeds \<^verbatim>\<open>validate_and_return_id_token\<close>, \<^verbatim>\<open>_get_jwks_keys\<close> and
  \<^verbatim>\<open>_validate_claims\<close> of \<^verbatim>\<open>src/jms_oidc_rp/utils.py\<close>. Python names that start with an
  underscore lose it (\<open>validate_claims\<close>, \<open>get_jwks_keys\<close>). The calls to
  \<^verbatim>\<open>logger.debug\<close> write to the log only and are left out.
\<close>

subsection \<open>Values, exceptions, settings\<close>

text \<open>
  The payload of a verified token is decoded JSON. Numbers are integers (the NumericDate
  claims \<^verbatim>\<open>exp\<close>, \<^verbatim>\<open>iat\<close>, \<^verbatim>\<open>nbf\<close> of OpenID Connect); a fractional number, which Python
  would read as a float, is outside the model. \<open>JNull\<close> is Python's \<^verbatim>\<open>None\<close>.
\<close>

datatype json =
    JNull
  | JBool bool
  | JInt int
  | JStr string
  | JList "json list"
  | JObj "(string \<times> json) list"

text \<open>
  Every \<^verbatim>\<open>raise\<close> of the source and every exception of an operator or a library call is a
  value. \<open>SuspiciousOperation\<close> carries its message, \<open>KeyError\<close> the missing key,
  \<open>JWKESTException\<close> stands for the class and its subclasses.
\<close>

datatype exn =
    SuspiciousOperation string
  | KeyError string
  | TypeError
  | AttributeError
  | ValueError
  | JWKESTException string
  | Exception string

text \<open>The ID token is a Python dict from claim names to values.\<close>

type_synonym claims = "string \<rightharpoonup> json"

text \<open>
  \<^verbatim>\<open>oidc_rp_settings\<close> comes from \<^verbatim>\<open>jms_oidc_rp/conf.py\<close>, which is not among the source
  files: the settings that \<^verbatim>\<open>utils.py\<close> reads are a parameter of every function.
\<close>

record settings =
  CLIENT_ID :: string
  CLIENT_SECRET :: string
  PROVIDER_ENDPOINT :: string
  PROVIDER_JWKS_ENDPOINT :: string
  PROVIDER_SIGNATURE_ALG :: string
  PROVIDER_SIGNATURE_KEY :: string
  ID_TOKEN_MAX_AGE :: int
  USE_NONCE :: bool

subsection \<open>Python operators on decoded JSON\<close>

text \<open>\<^verbatim>\<open>d[k]\<close> on a dict raises \<^verbatim>\<open>KeyError\<close> when the key is missing.\<close>

definition getitem :: "claims \<Rightarrow> string \<Rightarrow> exn + json" where
  "getitem d k = (case d k of None \<Rightarrow> Inl (KeyError k) | Some v \<Rightarrow> Inr v)"

fun isinstance_str :: "json \<Rightarrow> bool" where
  "isinstance_str (JStr s) = True"
| "isinstance_str v = False"

text \<open>Substring test, Python's \<^verbatim>\<open>s in t\<close> on two strings.\<close>

fun is_substring :: "string \<Rightarrow> string \<Rightarrow> bool" where
  "is_substring s [] = (s = [])"
| "is_substring s (c # cs) = (take (length s) (c # cs) = s \<or> is_substring s cs)"

text \<open>
  \<^verbatim>\<open>s in v\<close> for a string \<open>s\<close>: membership in a list, key membership in a dict, substring
  in a string, \<^verbatim>\<open>TypeError\<close> on \<^verbatim>\<open>None\<close>, a bool or a number.
\<close>

fun py_in :: "string \<Rightarrow> json \<Rightarrow> exn + bool" where
  "py_in s (JList xs) = Inr (JStr s \<in> set xs)"
| "py_in s (JObj kvs) = Inr (s \<in> set (map fst kvs))"
| "py_in s (JStr t) = Inr (is_substring s t)"
| "py_in s v = Inl TypeError"

text \<open>\<^verbatim>\<open>len(v)\<close>; a dict counts its keys.\<close>

fun py_len :: "json \<Rightarrow> exn + nat" where
  "py_len (JList xs) = Inr (length xs)"
| "py_len (JObj kvs) = Inr (length (remdups (map fst kvs)))"
| "py_len (JStr t) = Inr (length t)"
| "py_len v = Inl TypeError"

text \<open>
  The value as a number in \<^verbatim>\<open>n > v\<close>, \<^verbatim>\<open>n < v\<close> and \<^verbatim>\<open>v + n\<close> with an int \<open>n\<close>:
  \<^verbatim>\<open>bool\<close> is a subclass of \<^verbatim>\<open>int\<close>, everything else that is no number raises
  \<^verbatim>\<open>TypeError\<close>.
\<close>

fun py_int :: "json \<Rightarrow> exn + int" where
  "py_int (JInt i) = Inr i"
| "py_int (JBool b) = Inr (if b then 1 else 0)"
| "py_int v = Inl TypeError"

text \<open>\<^verbatim>\<open>id_token.get('nonce', None)\<close>.\<close>

definition get_or_None :: "claims \<Rightarrow> string \<Rightarrow> json" where
  "get_or_None d k = (case d k of None \<Rightarrow> JNull | Some v \<Rightarrow> v)"

text \<open>The \<^verbatim>\<open>nonce\<close> argument is \<^verbatim>\<open>None\<close> or a string.\<close>

fun nonce_value :: "string option \<Rightarrow> json" where
  "nonce_value None = JNull"
| "nonce_value (Some s) = JStr s"

subsection \<open>The library function urlparse\<close>

text \<open>
  \<^verbatim>\<open>urllib.parse.urlparse\<close> belongs to the Python standard library, not to the repository.
  The validator takes it as a parameter; it returns an object of which the code reads
  \<^verbatim>\<open>netloc\<close>. A component is a \<^verbatim>\<open>str\<close> or, for an argument that is no \<^verbatim>\<open>str\<close>, a
  \<^verbatim>\<open>bytes\<close> value, and a \<^verbatim>\<open>bytes\<close> value never equals a \<^verbatim>\<open>str\<close>.
\<close>

datatype py_text = Str string | Bytes string

record parse_result =
  scheme :: py_text
  netloc :: py_text

text \<open>
  \<open>py_urlparse\<close> is the instance used at concrete inputs. It computes the scheme and the
  netloc as CPython's \<^verbatim>\<open>urlsplit\<close> does for a URL of printable ASCII characters without
  blanks: a prefix of scheme characters that starts with a letter and ends at the first
  colon is the scheme; if the rest starts with \<^verbatim>\<open>//\<close>, the netloc runs up to the first of
  \<^verbatim>\<open>/ ? #\<close>; a netloc with only one of the two square brackets raises \<^verbatim>\<open>ValueError\<close>. The
  checks that CPython adds for an IPv6 literal between brackets and for characters outside
  ASCII are not modelled. An argument that is no string is decoded as \<^verbatim>\<open>bytes\<close>: a falsy
  one gives empty \<^verbatim>\<open>bytes\<close> components, any other raises \<^verbatim>\<open>AttributeError\<close>.
\<close>

definition ascii_lowercase :: string where
  "ascii_lowercase = ''abcdefghijklmnopqrstuvwxyz''"

definition ascii_uppercase :: string where
  "ascii_uppercase = ''ABCDEFGHIJKLMNOPQRSTUVWXYZ''"

definition scheme_chars :: string where
  "scheme_chars = ascii_lowercase @ ascii_uppercase @ ''0123456789'' @ ''+-.''"

definition lower_char :: "char \<Rightarrow> char" where
  "lower_char c = (case map_of (zip ascii_uppercase ascii_lowercase) c of None \<Rightarrow> c | Some l \<Rightarrow> l)"

definition split_scheme :: "string \<Rightarrow> string \<times> string" where
  "split_scheme url =
    (let pre = takeWhile (\<lambda>c. c \<noteq> CHR '':'') url in
     if pre \<noteq> [] \<and> length pre < length url
        \<and> hd pre \<in> set (ascii_lowercase @ ascii_uppercase)
        \<and> list_all (\<lambda>c. c \<in> set scheme_chars) pre
     then (map lower_char pre, drop (length pre + 1) url)
     else ([], url))"

definition splitnetloc :: "string \<Rightarrow> string" where
  "splitnetloc url =
    takeWhile (\<lambda>c. c \<noteq> CHR ''/'' \<and> c \<noteq> CHR ''?'' \<and> c \<noteq> CHR ''#'') (drop 2 url)"

definition urlsplit :: "string \<Rightarrow> exn + parse_result" where
  "urlsplit url0 =
    (case split_scheme url0 of (sch, url) \<Rightarrow>
       if take 2 url = ''//'' then
         (let nl = splitnetloc url in
          if (CHR ''['' \<in> set nl \<and> CHR '']'' \<notin> set nl) \<or> (CHR '']'' \<in> set nl \<and> CHR ''['' \<notin> set nl)
          then Inl ValueError
          else Inr \<lparr>scheme = Str sch, netloc = Str nl\<rparr>)
       else Inr \<lparr>scheme = Str sch, netloc = Str []\<rparr>)"

fun truthy :: "json \<Rightarrow> bool" where
  "truthy JNull = False"
| "truthy (JBool b) = b"
| "truthy (JInt i) = (i \<noteq> 0)"
| "truthy (JStr s) = (s \<noteq> [])"
| "truthy (JList xs) = (xs \<noteq> [])"
| "truthy (JObj kvs) = (kvs \<noteq> [])"

definition py_urlparse :: "json \<Rightarrow> exn + parse_result" where
  "py_urlparse v =
    (case v of
       JStr url \<Rightarrow> urlsplit url
     | _ \<Rightarrow> if truthy v then Inl AttributeError
            else Inr \<lparr>scheme = Bytes [], netloc = Bytes []\<rparr>)"

subsection \<open>The claim validator\<close>

text \<open>
  \<^verbatim>\<open>_validate_claims(id_token, nonce, validate_nonce)\<close>, lines 71 to 116. The dict is
  mutated in place (line 83), so the function returns the raised exception, if any, and
  the dict as the caller finds it afterwards. \<open>utc_timestamp\<close> is the value of
  \<^verbatim>\<open>timegm(dt.datetime.utcnow().utctimetuple())\<close>, read once on line 96.
\<close>

text \<open>
  Evaluating an expression that may raise, and a guarded \<^verbatim>\<open>raise\<close>: the exception leaves
  the function with the dict as it is at that point, otherwise the rest of the body runs.
\<close>

definition evaluate :: "exn + 'a \<Rightarrow> claims \<Rightarrow> ('a \<Rightarrow> exn option \<times> claims) \<Rightarrow> exn option \<times> claims" where
  "evaluate r d rest = (case r of Inl e \<Rightarrow> (Some e, d) | Inr v \<Rightarrow> rest v)"

definition raise_if :: "bool \<Rightarrow> exn \<Rightarrow> claims \<Rightarrow> exn option \<times> claims \<Rightarrow> exn option \<times> claims" where
  "raise_if b e d rest = (if b then (Some e, d) else rest)"

text \<open>\<^verbatim>\<open>'nbf' in id_token and utc_timestamp < id_token['nbf']\<close>, line 101.\<close>

definition nbf_in_future :: "int \<Rightarrow> claims \<Rightarrow> exn + bool" where
  "nbf_in_future utc_timestamp d =
    (case d ''nbf'' of None \<Rightarrow> Inr False
     | Some nbf \<Rightarrow> (case py_int nbf of Inl e \<Rightarrow> Inl e | Inr n \<Rightarrow> Inr (utc_timestamp < n)))"

text \<open>\<^verbatim>\<open>'azp' in id_token and id_token['azp'] != oidc_rp_settings.CLIENT_ID\<close>, line 93.\<close>

definition azp_differs :: "settings \<Rightarrow> claims \<Rightarrow> bool" where
  "azp_differs cfg d = (case d ''azp'' of None \<Rightarrow> False | Some azp \<Rightarrow> azp \<noteq> JStr (CLIENT_ID cfg))"

definition validate_claims ::
  "(json \<Rightarrow> exn + parse_result) \<Rightarrow> settings \<Rightarrow> int \<Rightarrow> claims \<Rightarrow> string option \<Rightarrow> bool
     \<Rightarrow> exn option \<times> claims" where
  "validate_claims urlparse cfg utc_timestamp id_token nonce validate_nonce =
    evaluate (getitem id_token ''iss'') id_token (\<lambda>iss.
    evaluate (urlparse iss) id_token (\<lambda>iss_parsed_url.
    evaluate (urlparse (JStr (PROVIDER_ENDPOINT cfg))) id_token (\<lambda>provider_parsed_url.
    raise_if (netloc iss_parsed_url \<noteq> netloc provider_parsed_url)
      (SuspiciousOperation ''Invalid issuer'') id_token (
    evaluate (getitem id_token ''aud'') id_token (\<lambda>aud0.
    let id_token = (if isinstance_str aud0 then id_token(''aud'' \<mapsto> JList [aud0]) else id_token) in
    evaluate (getitem id_token ''aud'') id_token (\<lambda>aud.
    evaluate (py_in (CLIENT_ID cfg) aud) id_token (\<lambda>member.
    raise_if (\<not> member)
      (SuspiciousOperation ''Invalid audience'') id_token (
    evaluate (getitem id_token ''aud'') id_token (\<lambda>aud.
    evaluate (py_len aud) id_token (\<lambda>n.
    raise_if (n > 1 \<and> id_token ''azp'' = None)
      (SuspiciousOperation ''Incorrect id_token: azp'') id_token (
    raise_if (azp_differs cfg id_token)
      (SuspiciousOperation ''Incorrect id_token: azp'') id_token (
    evaluate (getitem id_token ''exp'') id_token (\<lambda>exp.
    evaluate (py_int exp) id_token (\<lambda>exp_n.
    raise_if (utc_timestamp > exp_n)
      (SuspiciousOperation ''Signature has expired'') id_token (
    evaluate (nbf_in_future utc_timestamp id_token) id_token (\<lambda>early.
    raise_if early
      (SuspiciousOperation ''Incorrect id_token: nbf'') id_token (
    evaluate (getitem id_token ''iat'') id_token (\<lambda>iat.
    evaluate (py_int iat) id_token (\<lambda>iat_n.
    raise_if (utc_timestamp > iat_n + ID_TOKEN_MAX_AGE cfg)
      (SuspiciousOperation ''Incorrect id_token: iat'') id_token (
    let id_token_nonce = get_or_None id_token ''nonce'' in
    raise_if (validate_nonce \<and> USE_NONCE cfg \<and> id_token_nonce \<noteq> nonce_value nonce)
      (SuspiciousOperation ''Incorrect id_token: nonce'') id_token
    (None, id_token)))))))))))))))))))))"

subsection \<open>The validation rules one by one\<close>

text \<open>
  The specification lists nine rules. Each is given here by the statement of the source
  that implements it, as a function from the dict before the statement to the raised
  exception, if any, and the dict after it.
\<close>

type_synonym rule = "claims \<Rightarrow> exn option \<times> claims"

text \<open>Rule 1, issuer: lines 76 to 80.\<close>

definition rule_issuer :: "(json \<Rightarrow> exn + parse_result) \<Rightarrow> settings \<Rightarrow> rule" where
  "rule_issuer urlparse cfg d =
    evaluate (getitem d ''iss'') d (\<lambda>iss.
    evaluate (urlparse iss) d (\<lambda>iss_parsed_url.
    evaluate (urlparse (JStr (PROVIDER_ENDPOINT cfg))) d (\<lambda>provider_parsed_url.
    raise_if (netloc iss_parsed_url \<noteq> netloc provider_parsed_url)
      (SuspiciousOperation ''Invalid issuer'') d (None, d))))"

text \<open>Rule 2, audience normalization: lines 82 and 83.\<close>

definition rule_aud_normalize :: rule where
  "rule_aud_normalize d =
    evaluate (getitem d ''aud'') d (\<lambda>aud.
    (None, if isinstance_str aud then d(''aud'' \<mapsto> JList [aud]) else d))"

text \<open>Rule 3, audience membership: lines 85 to 87.\<close>

definition rule_aud_member :: "settings \<Rightarrow> rule" where
  "rule_aud_member cfg d =
    evaluate (getitem d ''aud'') d (\<lambda>aud.
    evaluate (py_in (CLIENT_ID cfg) aud) d (\<lambda>member.
    raise_if (\<not> member) (SuspiciousOperation ''Invalid audience'') d (None, d)))"

text \<open>Rule 4, authorized party of a token with several audiences: lines 89 to 91.\<close>

definition rule_azp_present :: rule where
  "rule_azp_present d =
    evaluate (getitem d ''aud'') d (\<lambda>aud.
    evaluate (py_len aud) d (\<lambda>n.
    raise_if (n > 1 \<and> d ''azp'' = None) (SuspiciousOperation ''Incorrect id_token: azp'') d
      (None, d)))"

text \<open>Rule 5, authorized party match: lines 93 and 94.\<close>

definition rule_azp_match :: "settings \<Rightarrow> rule" where
  "rule_azp_match cfg d =
    raise_if (azp_differs cfg d) (SuspiciousOperation ''Incorrect id_token: azp'') d (None, d)"

text \<open>Rule 6, expiry: lines 97 to 99.\<close>

definition rule_expiry :: "int \<Rightarrow> rule" where
  "rule_expiry utc_timestamp d =
    evaluate (getitem d ''exp'') d (\<lambda>exp.
    evaluate (py_int exp) d (\<lambda>exp_n.
    raise_if (utc_timestamp > exp_n) (SuspiciousOperation ''Signature has expired'') d
      (None, d)))"

text \<open>Rule 7, not before: lines 101 to 103.\<close>

definition rule_nbf :: "int \<Rightarrow> rule" where
  "rule_nbf utc_timestamp d =
    evaluate (nbf_in_future utc_timestamp d) d (\<lambda>early.
    raise_if early (SuspiciousOperation ''Incorrect id_token: nbf'') d (None, d))"

text \<open>Rule 8, issued-at freshness: lines 106 to 108.\<close>

definition rule_iat :: "settings \<Rightarrow> int \<Rightarrow> rule" where
  "rule_iat cfg utc_timestamp d =
    evaluate (getitem d ''iat'') d (\<lambda>iat.
    evaluate (py_int iat) d (\<lambda>iat_n.
    raise_if (utc_timestamp > iat_n + ID_TOKEN_MAX_AGE cfg)
      (SuspiciousOperation ''Incorrect id_token: iat'') d (None, d)))"

text \<open>Rule 9, nonce: lines 111 to 114.\<close>

definition rule_nonce :: "settings \<Rightarrow> string option \<Rightarrow> bool \<Rightarrow> rule" where
  "rule_nonce cfg nonce validate_nonce d =
    raise_if (validate_nonce \<and> USE_NONCE cfg \<and> get_or_None d ''nonce'' \<noteq> nonce_value nonce)
      (SuspiciousOperation ''Incorrect id_token: nonce'') d (None, d)"

text \<open>
  Running rules in order: the first one that raises ends the run with its exception, and
  the rules after it are not applied.
\<close>

fun first_failure :: "rule list \<Rightarrow> rule" where
  "first_failure [] d = (None, d)"
| "first_failure (r # rs) d =
    (case r d of (Some e, d') \<Rightarrow> (Some e, d') | (None, d') \<Rightarrow> first_failure rs d')"

text \<open>The rules before the expiry check, and all nine in the order of the specification.\<close>

definition audience_rules :: "(json \<Rightarrow> exn + parse_result) \<Rightarrow> settings \<Rightarrow> rule list" where
  "audience_rules urlparse cfg =
    [rule_issuer urlparse cfg, rule_aud_normalize, rule_aud_member cfg]"

definition party_rules :: "settings \<Rightarrow> rule list" where
  "party_rules cfg = [rule_azp_present, rule_azp_match cfg]"

definition time_rules :: "settings \<Rightarrow> int \<Rightarrow> rule list" where
  "time_rules cfg utc_timestamp =
    [rule_expiry utc_timestamp, rule_nbf utc_timestamp, rule_iat cfg utc_timestamp]"

definition claim_rules ::
  "(json \<Rightarrow> exn + parse_result) \<Rightarrow> settings \<Rightarrow> int \<Rightarrow> string option \<Rightarrow> bool \<Rightarrow> rule list" where
  "claim_rules urlparse cfg utc_timestamp nonce validate_nonce =
    audience_rules urlparse cfg @ party_rules cfg @ time_rules cfg utc_timestamp
      @ [rule_nonce cfg nonce validate_nonce]"

subsection \<open>Keys and the entry point\<close>

text \<open>
  \<^verbatim>\<open>KEYS.load_from_url\<close> and \<^verbatim>\<open>JWS.verify_compact\<close> belong to the jwkest library and are
  parameters. A key is one loaded from the provider or the \<^verbatim>\<open>oct\<close> key that line 66 adds.
\<close>

datatype jwk = LoadedKey string | OctKey string

text \<open>\<^verbatim>\<open>_get_jwks_keys(shared_key)\<close>, lines 53 to 68.\<close>

definition get_jwks_keys :: "(string \<Rightarrow> exn + jwk list) \<Rightarrow> settings \<Rightarrow> string \<Rightarrow> exn + jwk list" where
  "get_jwks_keys load_from_url cfg shared_key =
    (case load_from_url (PROVIDER_JWKS_ENDPOINT cfg) of
       Inl e \<Rightarrow> Inl e
     | Inr jwks_keys \<Rightarrow> Inr (jwks_keys @ [OctKey shared_key]))"

fun is_JWKESTException :: "exn \<Rightarrow> bool" where
  "is_JWKESTException (JWKESTException m) = True"
| "is_JWKESTException e = False"

text \<open>
  \<^verbatim>\<open>validate_and_return_id_token(jws, nonce, validate_nonce)\<close>, lines 30 to 50. The result is
  a raised exception, or the returned value: \<^verbatim>\<open>None\<close> (line 44) or the dict (line 50).
  The payload that \<^verbatim>\<open>verify_compact\<close> returns is taken to be a JSON object; the
  conversions \<^verbatim>\<open>force_bytes\<close> and \<^verbatim>\<open>smart_bytes\<close> of the token and of the key are left out.
  Loading the keys is part of the argument list of line 41, inside the \<^verbatim>\<open>try\<close>.
\<close>

definition validate_and_return_id_token ::
  "(string \<Rightarrow> exn + jwk list) \<Rightarrow> (string \<Rightarrow> jwk list \<Rightarrow> exn + claims)
     \<Rightarrow> (json \<Rightarrow> exn + parse_result) \<Rightarrow> settings \<Rightarrow> int
     \<Rightarrow> string \<Rightarrow> string option \<Rightarrow> bool \<Rightarrow> exn + claims option" where
  "validate_and_return_id_token load_from_url verify_compact urlparse cfg utc_timestamp
      jws nonce validate_nonce =
    (let shared_key = (if PROVIDER_SIGNATURE_ALG cfg = ''HS256'' then CLIENT_SECRET cfg
                       else PROVIDER_SIGNATURE_KEY cfg) in
     case (case get_jwks_keys load_from_url cfg shared_key of
             Inl e \<Rightarrow> Inl e
           | Inr keys \<Rightarrow> verify_compact jws keys) of
       Inl e \<Rightarrow> (if is_JWKESTException e then Inr None else Inl e)
     | Inr id_token \<Rightarrow>
         (case validate_claims urlparse cfg utc_timestamp id_token nonce validate_nonce of
            (Some e, d) \<Rightarrow> Inl e
          | (None, d) \<Rightarrow> Inr (Some d)))"

subsection \<open>Concrete inputs\<close>

text \<open>
  Settings, a claim set and a time at which the claim set is valid, for evaluating the
  functions. The two library stand-ins load no provider key and reject every token.
\<close>

definition sample_settings :: settings where
  "sample_settings =
    \<lparr>CLIENT_ID = ''clientA'', CLIENT_SECRET = ''secret'',
     PROVIDER_ENDPOINT = ''https://op.example.com/'',
     PROVIDER_JWKS_ENDPOINT = ''https://op.example.com/jwks'',
     PROVIDER_SIGNATURE_ALG = ''HS256'', PROVIDER_SIGNATURE_KEY = ''none'',
     ID_TOKEN_MAX_AGE = 600, USE_NONCE = True\<rparr>"

definition sample_claims :: claims where
  "sample_claims =
    [''iss'' \<mapsto> JStr ''https://op.example.com'', ''sub'' \<mapsto> JStr ''alice'',
     ''aud'' \<mapsto> JStr ''clientA'', ''exp'' \<mapsto> JInt 4600, ''iat'' \<mapsto> JInt 1000,
     ''nonce'' \<mapsto> JStr ''abc123'']"

definition sample_now :: int where
  "sample_now = 1000"

definition two_audiences :: json where
  "two_audiences = JList [JStr ''clientA'', JStr ''clientB'']"

definition no_provider_keys :: "string \<Rightarrow> exn + jwk list" where
  "no_provider_keys url = Inr []"

definition rejecting_verify_compact :: "string \<Rightarrow> jwk list \<Rightarrow> exn + claims" where
  "rejecting_verify_compact jws keys = Inl (JWKESTException ''BadSignature'')"

section \<open>Properties\<close>

subsection \<open>The validator as an ordered run of the rules\<close>

lemma evaluate_simps:
  "evaluate (Inl e) d rest = (Some e, d)"
  "evaluate (Inr v) d rest = rest v"
  by (simp_all add: evaluate_def)

lemma raise_if_simps:
  "raise_if True e d rest = (Some e, d)"
  "raise_if False e d rest = rest"
  by (simp_all add: raise_if_def)

lemma first_failure_issuer:
  "first_failure (rule_issuer urlparse cfg # rs) d =
    evaluate (getitem d ''iss'') d (\<lambda>iss.
    evaluate (urlparse iss) d (\<lambda>iss_parsed_url.
    evaluate (urlparse (JStr (PROVIDER_ENDPOINT cfg))) d (\<lambda>provider_parsed_url.
    raise_if (netloc iss_parsed_url \<noteq> netloc provider_parsed_url)
      (SuspiciousOperation ''Invalid issuer'') d (first_failure rs d))))"
  by (simp add: rule_issuer_def evaluate_def raise_if_def split: sum.splits)

lemma first_failure_aud_normalize:
  "first_failure (rule_aud_normalize # rs) d =
    evaluate (getitem d ''aud'') d (\<lambda>aud.
    first_failure rs (if isinstance_str aud then d(''aud'' \<mapsto> JList [aud]) else d))"
  by (simp add: rule_aud_normalize_def evaluate_def split: sum.splits)

lemma first_failure_aud_member:
  "first_failure (rule_aud_member cfg # rs) d =
    evaluate (getitem d ''aud'') d (\<lambda>aud.
    evaluate (py_in (CLIENT_ID cfg) aud) d (\<lambda>member.
    raise_if (\<not> member) (SuspiciousOperation ''Invalid audience'') d (first_failure rs d)))"
  by (simp add: rule_aud_member_def evaluate_def raise_if_def split: sum.splits)

lemma first_failure_azp_present:
  "first_failure (rule_azp_present # rs) d =
    evaluate (getitem d ''aud'') d (\<lambda>aud.
    evaluate (py_len aud) d (\<lambda>n.
    raise_if (n > 1 \<and> d ''azp'' = None) (SuspiciousOperation ''Incorrect id_token: azp'') d
      (first_failure rs d)))"
  by (simp add: rule_azp_present_def evaluate_def raise_if_def split: sum.splits)

lemma first_failure_azp_match:
  "first_failure (rule_azp_match cfg # rs) d =
    raise_if (azp_differs cfg d) (SuspiciousOperation ''Incorrect id_token: azp'') d
      (first_failure rs d)"
  by (simp add: rule_azp_match_def raise_if_def)

lemma first_failure_expiry:
  "first_failure (rule_expiry utc_timestamp # rs) d =
    evaluate (getitem d ''exp'') d (\<lambda>exp.
    evaluate (py_int exp) d (\<lambda>exp_n.
    raise_if (utc_timestamp > exp_n) (SuspiciousOperation ''Signature has expired'') d
      (first_failure rs d)))"
  by (simp add: rule_expiry_def evaluate_def raise_if_def split: sum.splits)

lemma first_failure_nbf:
  "first_failure (rule_nbf utc_timestamp # rs) d =
    evaluate (nbf_in_future utc_timestamp d) d (\<lambda>early.
    raise_if early (SuspiciousOperation ''Incorrect id_token: nbf'') d (first_failure rs d))"
  by (simp add: rule_nbf_def evaluate_def raise_if_def split: sum.splits)

lemma first_failure_iat:
  "first_failure (rule_iat cfg utc_timestamp # rs) d =
    evaluate (getitem d ''iat'') d (\<lambda>iat.
    evaluate (py_int iat) d (\<lambda>iat_n.
    raise_if (utc_timestamp > iat_n + ID_TOKEN_MAX_AGE cfg)
      (SuspiciousOperation ''Incorrect id_token: iat'') d (first_failure rs d)))"
  by (simp add: rule_iat_def evaluate_def raise_if_def split: sum.splits)

lemma first_failure_nonce:
  "first_failure (rule_nonce cfg nonce validate_nonce # rs) d =
    raise_if (validate_nonce \<and> USE_NONCE cfg \<and> get_or_None d ''nonce'' \<noteq> nonce_value nonce)
      (SuspiciousOperation ''Incorrect id_token: nonce'') d (first_failure rs d)"
  by (simp add: rule_nonce_def raise_if_def)

lemmas first_failure_rule =
  first_failure_issuer first_failure_aud_normalize first_failure_aud_member
  first_failure_azp_present first_failure_azp_match first_failure_expiry
  first_failure_nbf first_failure_iat first_failure_nonce

lemmas rule_lists = claim_rules_def audience_rules_def party_rules_def time_rules_def

lemma validate_claims_rules:
  "validate_claims urlparse cfg utc_timestamp id_token nonce validate_nonce
     = first_failure (claim_rules urlparse cfg utc_timestamp nonce validate_nonce) id_token"
  unfolding validate_claims_def rule_lists
  by (simp only: append.simps first_failure_rule first_failure.simps(1) Let_def)

lemma first_failure_append:
  "first_failure (pre @ post) d =
    (case first_failure pre d of (Some e, d') \<Rightarrow> (Some e, d') | (None, d') \<Rightarrow> first_failure post d')"
  by (induction pre arbitrary: d) (auto split: prod.splits option.splits)

lemma first_failure_stops:
  assumes "first_failure pre d = (None, d')" and "r d' = (Some e, d'')"
  shows "first_failure (pre @ r # post) d = (Some e, d'')"
  using assms by (simp add: first_failure_append)

lemma first_failure_passes:
  assumes "first_failure pre d = (None, d')"
  shows "first_failure (pre @ post) d = first_failure post d'"
  using assms by (simp add: first_failure_append)

lemma validate_claims_after:
  assumes "claim_rules urlparse cfg utc_timestamp nonce validate_nonce = pre @ post"
      and "first_failure pre id_token = (None, d)"
  shows "validate_claims urlparse cfg utc_timestamp id_token nonce validate_nonce
           = first_failure post d"
  using assms by (simp add: validate_claims_rules first_failure_passes)

subsection \<open>What the rules do to the dict\<close>

lemma rule_keeps_dict:
  "snd (rule_issuer urlparse cfg d) = d"
  "snd (rule_aud_member cfg d) = d"
  "snd (rule_azp_present d) = d"
  "snd (rule_azp_match cfg d) = d"
  "snd (rule_expiry utc_timestamp d) = d"
  "snd (rule_nbf utc_timestamp d) = d"
  "snd (rule_iat cfg utc_timestamp d) = d"
  "snd (rule_nonce cfg nonce validate_nonce d) = d"
  by (simp_all add: rule_issuer_def rule_aud_member_def rule_azp_present_def rule_azp_match_def
      rule_expiry_def rule_nbf_def rule_iat_def rule_nonce_def evaluate_def raise_if_def
      split: sum.splits)

lemma rule_aud_normalize_dict:
  "snd (rule_aud_normalize d) =
    (case d ''aud'' of Some (JStr a) \<Rightarrow> d(''aud'' \<mapsto> JList [JStr a]) | _ \<Rightarrow> d)"
  by (simp add: rule_aud_normalize_def evaluate_def getitem_def split: option.splits json.splits)

lemma first_failure_keeps_dict:
  assumes "\<And>r d. r \<in> set rs \<Longrightarrow> snd (r d) = d"
  shows "snd (first_failure rs d) = d"
  using assms
proof (induction rs arbitrary: d)
  case Nil
  show ?case by simp
next
  case (Cons r rs)
  have here: "snd (r d) = d" using Cons.prems by simp
  have later: "snd (first_failure rs d) = d" using Cons by simp
  show ?case
  proof (cases "r d")
    case (Pair x d')
    with here have "d' = d" by simp
    with Pair later show ?thesis by (cases x) simp_all
  qed
qed

lemma after_normalize_keeps_dict:
  "snd (first_failure (rule_aud_member cfg # party_rules cfg @ time_rules cfg utc_timestamp
          @ [rule_nonce cfg nonce validate_nonce]) d) = d"
  by (rule first_failure_keeps_dict) (auto simp: party_rules_def time_rules_def rule_keeps_dict)

lemma first_failure_other_keys:
  assumes "\<And>r d. r \<in> set rs \<Longrightarrow> snd (r d) k = d k"
  shows "snd (first_failure rs d) k = d k"
  using assms
proof (induction rs arbitrary: d)
  case Nil
  show ?case by simp
next
  case (Cons r rs)
  have here: "snd (r d) k = d k" using Cons.prems by simp
  have later: "\<And>d'. snd (first_failure rs d') k = d' k" using Cons by simp
  show ?case
  proof (cases "r d")
    case (Pair x d')
    with here have "d' k = d k" by simp
    with Pair later [of d'] show ?thesis by (cases x) simp_all
  qed
qed

lemma claim_rules_other_keys:
  assumes "k \<noteq> ''aud''"
      and "r \<in> set (claim_rules urlparse cfg utc_timestamp nonce validate_nonce)"
  shows "snd (r d) k = d k"
  using assms
  by (auto simp: rule_lists rule_keeps_dict rule_aud_normalize_dict
      split: option.splits json.splits)

lemma prefix_other_keys:
  assumes "claim_rules urlparse cfg utc_timestamp nonce validate_nonce = pre @ post"
      and "first_failure pre id_token = (x, d)"
      and "k \<noteq> ''aud''"
  shows "d k = id_token k"
proof -
  have "snd (first_failure pre id_token) k = id_token k"
  proof (rule first_failure_other_keys)
    fix r d'
    assume "r \<in> set pre"
    with assms(1) have "r \<in> set (claim_rules urlparse cfg utc_timestamp nonce validate_nonce)"
      by simp
    with assms(3) show "snd (r d') k = d' k" by (rule claim_rules_other_keys)
  qed
  with assms(2) show ?thesis by simp
qed

subsection \<open>The concrete inputs evaluated\<close>

lemma sample_claims_get:
  "sample_claims ''iss'' = Some (JStr ''https://op.example.com'')"
  "sample_claims ''aud'' = Some (JStr ''clientA'')"
  "sample_claims ''azp'' = None"
  "sample_claims ''exp'' = Some (JInt 4600)"
  "sample_claims ''nbf'' = None"
  "sample_claims ''iat'' = Some (JInt 1000)"
  "sample_claims ''nonce'' = Some (JStr ''abc123'')"
  by (simp_all add: sample_claims_def)

lemma sample_settings_get:
  "CLIENT_ID sample_settings = ''clientA''"
  "CLIENT_SECRET sample_settings = ''secret''"
  "PROVIDER_ENDPOINT sample_settings = ''https://op.example.com/''"
  "PROVIDER_JWKS_ENDPOINT sample_settings = ''https://op.example.com/jwks''"
  "PROVIDER_SIGNATURE_ALG sample_settings = ''HS256''"
  "ID_TOKEN_MAX_AGE sample_settings = 600"
  "USE_NONCE sample_settings = True"
  by (simp_all add: sample_settings_def)

lemma py_urlparse_sample:
  "py_urlparse (JStr ''https://op.example.com'')
     = Inr \<lparr>scheme = Str ''https'', netloc = Str ''op.example.com''\<rparr>"
  "py_urlparse (JStr ''https://op.example.com/'')
     = Inr \<lparr>scheme = Str ''https'', netloc = Str ''op.example.com''\<rparr>"
  "py_urlparse (JStr ''http://op.example.com'')
     = Inr \<lparr>scheme = Str ''http'', netloc = Str ''op.example.com''\<rparr>"
  "py_urlparse (JStr ''https://evil.example.net/'')
     = Inr \<lparr>scheme = Str ''https'', netloc = Str ''evil.example.net''\<rparr>"
  by (simp_all add: py_urlparse_def urlsplit_def split_scheme_def splitnetloc_def
      scheme_chars_def ascii_lowercase_def ascii_uppercase_def lower_char_def Let_def)

lemma py_urlparse_no_SuspiciousOperation:
  "py_urlparse v \<noteq> Inl (SuspiciousOperation m)"
  by (cases v) (simp_all add: py_urlparse_def urlsplit_def Let_def split: prod.splits)

lemma sample_issuer_passes:
  assumes "d ''iss'' = Some (JStr ''https://op.example.com'')"
  shows "rule_issuer py_urlparse sample_settings d = (None, d)"
  using assms
  by (simp add: rule_issuer_def evaluate_def raise_if_def getitem_def py_urlparse_sample
      sample_settings_get)

lemma sample_audience_passes:
  assumes "d ''iss'' = Some (JStr ''https://op.example.com'')"
      and "d ''aud'' = Some (JStr ''clientA'')"
  shows "first_failure (audience_rules py_urlparse sample_settings) d
           = (None, d(''aud'' \<mapsto> JList [JStr ''clientA'']))"
  using assms
  by (simp add: audience_rules_def sample_issuer_passes rule_aud_normalize_def
      rule_aud_member_def evaluate_def raise_if_def getitem_def sample_settings_get)

lemma sample_party_passes:
  assumes "d ''iss'' = Some (JStr ''https://op.example.com'')"
      and "d ''aud'' = Some (JStr ''clientA'')"
      and "d ''azp'' = None"
  shows "first_failure (audience_rules py_urlparse sample_settings @ party_rules sample_settings) d
           = (None, d(''aud'' \<mapsto> JList [JStr ''clientA'']))"
  using assms
  by (simp add: first_failure_append sample_audience_passes party_rules_def
      rule_azp_present_def rule_azp_match_def azp_differs_def evaluate_def raise_if_def
      getitem_def)

lemma sample_time_passes:
  assumes "d ''iss'' = Some (JStr ''https://op.example.com'')"
      and "d ''aud'' = Some (JStr ''clientA'')"
      and "d ''azp'' = None"
      and "d ''exp'' = Some (JInt 4600)"
      and "d ''nbf'' = None"
      and "d ''iat'' = Some (JInt 1000)"
  shows "first_failure (audience_rules py_urlparse sample_settings @ party_rules sample_settings
            @ time_rules sample_settings sample_now) d
           = (None, d(''aud'' \<mapsto> JList [JStr ''clientA'']))"
proof -
  have "first_failure ((audience_rules py_urlparse sample_settings @ party_rules sample_settings)
            @ time_rules sample_settings sample_now) d
          = first_failure (time_rules sample_settings sample_now)
              (d(''aud'' \<mapsto> JList [JStr ''clientA'']))"
    using assms by (intro first_failure_passes sample_party_passes)
  also have "\<dots> = (None, d(''aud'' \<mapsto> JList [JStr ''clientA'']))"
    using assms
    by (simp add: time_rules_def rule_expiry_def rule_nbf_def rule_iat_def nbf_in_future_def
        evaluate_def raise_if_def getitem_def sample_settings_get sample_now_def)
  finally show ?thesis by simp
qed

subsection \<open>Order of the rules\<close>

text \<open>
  C7: claim validation applies its rules in the fixed order issuer, audience normalization,
  audience membership, authorized party present for several audiences, authorized party
  match, expiry, not before, issued-at freshness, nonce. It stops at the first rule that
  fails and returns the error of that rule, whatever the rules after it would do.
\<close>

theorem rules_in_order_first_failure_wins:
  "claim_rules urlparse cfg utc_timestamp nonce validate_nonce =
     [rule_issuer urlparse cfg, rule_aud_normalize, rule_aud_member cfg, rule_azp_present,
      rule_azp_match cfg, rule_expiry utc_timestamp, rule_nbf utc_timestamp,
      rule_iat cfg utc_timestamp, rule_nonce cfg nonce validate_nonce]
   \<and> validate_claims urlparse cfg utc_timestamp id_token nonce validate_nonce =
       first_failure (claim_rules urlparse cfg utc_timestamp nonce validate_nonce) id_token
   \<and> (\<forall>pre r post d e d'.
         claim_rules urlparse cfg utc_timestamp nonce validate_nonce = pre @ r # post
           \<and> first_failure pre id_token = (None, d) \<and> r d = (Some e, d')
         \<longrightarrow> validate_claims urlparse cfg utc_timestamp id_token nonce validate_nonce
               = (Some e, d'))"
proof (intro conjI allI impI)
  show "claim_rules urlparse cfg utc_timestamp nonce validate_nonce =
     [rule_issuer urlparse cfg, rule_aud_normalize, rule_aud_member cfg, rule_azp_present,
      rule_azp_match cfg, rule_expiry utc_timestamp, rule_nbf utc_timestamp,
      rule_iat cfg utc_timestamp, rule_nonce cfg nonce validate_nonce]"
    by (simp add: rule_lists)
next
  show "validate_claims urlparse cfg utc_timestamp id_token nonce validate_nonce =
       first_failure (claim_rules urlparse cfg utc_timestamp nonce validate_nonce) id_token"
    by (rule validate_claims_rules)
next
  fix pre r post d e d'
  assume h: "claim_rules urlparse cfg utc_timestamp nonce validate_nonce = pre @ r # post
               \<and> first_failure pre id_token = (None, d) \<and> r d = (Some e, d')"
  then have "first_failure pre id_token = (None, d)" and "r d = (Some e, d')"
    by blast+
  then have "first_failure (pre @ r # post) id_token = (Some e, d')"
    by (rule first_failure_stops)
  with h show "validate_claims urlparse cfg utc_timestamp id_token nonce validate_nonce
                 = (Some e, d')"
    by (simp add: validate_claims_rules)
qed

text \<open>
  At the sample time a token that has expired, is not yet valid and carries the wrong nonce
  is rejected as expired: the expiry rule comes first.
\<close>

theorem rules_in_order_first_failure_wins_witness:
  "first_failure (audience_rules py_urlparse sample_settings @ party_rules sample_settings)
       (sample_claims(''exp'' \<mapsto> JInt 999, ''nbf'' \<mapsto> JInt 2000, ''nonce'' \<mapsto> JStr ''xyz''))
     = (None, sample_claims(''exp'' \<mapsto> JInt 999, ''nbf'' \<mapsto> JInt 2000, ''nonce'' \<mapsto> JStr ''xyz'',
                ''aud'' \<mapsto> JList [JStr ''clientA'']))
   \<and> fst (rule_nbf sample_now
            (sample_claims(''exp'' \<mapsto> JInt 999, ''nbf'' \<mapsto> JInt 2000, ''nonce'' \<mapsto> JStr ''xyz'',
                ''aud'' \<mapsto> JList [JStr ''clientA''])))
       = Some (SuspiciousOperation ''Incorrect id_token: nbf'')
   \<and> validate_claims py_urlparse sample_settings sample_now
       (sample_claims(''exp'' \<mapsto> JInt 999, ''nbf'' \<mapsto> JInt 2000, ''nonce'' \<mapsto> JStr ''xyz''))
       (Some ''abc123'') True
     = (Some (SuspiciousOperation ''Signature has expired''),
        sample_claims(''exp'' \<mapsto> JInt 999, ''nbf'' \<mapsto> JInt 2000, ''nonce'' \<mapsto> JStr ''xyz'',
                ''aud'' \<mapsto> JList [JStr ''clientA'']))"
proof -
  let ?tok = "sample_claims(''exp'' \<mapsto> JInt 999, ''nbf'' \<mapsto> JInt 2000, ''nonce'' \<mapsto> JStr ''xyz'')"
  let ?d = "?tok(''aud'' \<mapsto> JList [JStr ''clientA''])"
  let ?pre = "audience_rules py_urlparse sample_settings @ party_rules sample_settings"
  let ?post = "[rule_nbf sample_now, rule_iat sample_settings sample_now,
                rule_nonce sample_settings (Some ''abc123'') True]"
  have split: "claim_rules py_urlparse sample_settings sample_now (Some ''abc123'') True
                 = ?pre @ rule_expiry sample_now # ?post"
    by (simp add: rule_lists)
  have pre: "first_failure ?pre ?tok = (None, ?d)"
    by (rule sample_party_passes) (simp_all add: sample_claims_get)
  have expired: "rule_expiry sample_now ?d = (Some (SuspiciousOperation ''Signature has expired''), ?d)"
    by (simp add: rule_expiry_def evaluate_def raise_if_def getitem_def sample_now_def)
  have nbf: "fst (rule_nbf sample_now ?d) = Some (SuspiciousOperation ''Incorrect id_token: nbf'')"
    by (simp add: rule_nbf_def nbf_in_future_def evaluate_def raise_if_def sample_now_def)
  from rules_in_order_first_failure_wins
    [of py_urlparse sample_settings sample_now "Some ''abc123''" True ?tok]
  have "validate_claims py_urlparse sample_settings sample_now ?tok (Some ''abc123'') True
          = (Some (SuspiciousOperation ''Signature has expired''), ?d)"
    using split pre expired by blast
  with pre nbf show ?thesis by simp
qed

subsection \<open>Which exceptions the rules raise\<close>

lemma getitem_raises: "getitem d k = Inl x \<Longrightarrow> x = KeyError k"
  by (simp add: getitem_def split: option.splits)

lemma py_int_raises: "py_int v = Inl x \<Longrightarrow> x = TypeError"
  by (cases v) auto

lemma py_in_raises: "py_in s v = Inl x \<Longrightarrow> x = TypeError"
  by (cases v) auto

lemma py_len_raises: "py_len v = Inl x \<Longrightarrow> x = TypeError"
  by (cases v) auto

lemma nbf_in_future_raises: "nbf_in_future utc_timestamp d = Inl x \<Longrightarrow> x = TypeError"
  by (auto simp: nbf_in_future_def split: option.splits sum.splits dest: py_int_raises)

lemma rule_issuer_message:
  assumes "fst (rule_issuer urlparse cfg d) = Some (SuspiciousOperation m)"
      and "\<And>v m. urlparse v \<noteq> Inl (SuspiciousOperation m)"
  shows "m = ''Invalid issuer''"
  using assms
  by (auto simp: rule_issuer_def evaluate_def raise_if_def split: sum.splits if_splits
      dest: getitem_raises)

lemma rule_aud_normalize_message:
  "fst (rule_aud_normalize d) \<noteq> Some (SuspiciousOperation m)"
  by (auto simp: rule_aud_normalize_def evaluate_def split: sum.splits dest: getitem_raises)

lemma rule_aud_member_message:
  assumes "fst (rule_aud_member cfg d) = Some (SuspiciousOperation m)"
  shows "m = ''Invalid audience''"
  using assms
  by (auto simp: rule_aud_member_def evaluate_def raise_if_def split: sum.splits if_splits
      dest: getitem_raises py_in_raises)

lemma rule_azp_present_message:
  assumes "fst (rule_azp_present d) = Some (SuspiciousOperation m)"
  shows "m = ''Incorrect id_token: azp''"
  using assms
  by (auto simp: rule_azp_present_def evaluate_def raise_if_def split: sum.splits if_splits
      dest: getitem_raises py_len_raises)

lemma rule_azp_match_message:
  assumes "fst (rule_azp_match cfg d) = Some (SuspiciousOperation m)"
  shows "m = ''Incorrect id_token: azp''"
  using assms by (auto simp: rule_azp_match_def raise_if_def split: if_splits)

lemma rule_expiry_message:
  assumes "fst (rule_expiry utc_timestamp d) = Some (SuspiciousOperation m)"
  shows "m = ''Signature has expired''"
  using assms
  by (auto simp: rule_expiry_def evaluate_def raise_if_def split: sum.splits if_splits
      dest: getitem_raises py_int_raises)

lemma rule_nbf_message:
  assumes "fst (rule_nbf utc_timestamp d) = Some (SuspiciousOperation m)"
  shows "m = ''Incorrect id_token: nbf''"
  using assms
  by (auto simp: rule_nbf_def evaluate_def raise_if_def split: sum.splits if_splits
      dest: nbf_in_future_raises)

lemma rule_iat_message:
  assumes "fst (rule_iat cfg utc_timestamp d) = Some (SuspiciousOperation m)"
  shows "m = ''Incorrect id_token: iat''"
  using assms
  by (auto simp: rule_iat_def evaluate_def raise_if_def split: sum.splits if_splits
      dest: getitem_raises py_int_raises)

lemma rule_nonce_message:
  assumes "fst (rule_nonce cfg nonce validate_nonce d) = Some (SuspiciousOperation m)"
  shows "m = ''Incorrect id_token: nonce''"
  using assms by (auto simp: rule_nonce_def raise_if_def split: if_splits)

lemma first_failure_error_from_rule:
  assumes "fst (first_failure rs d) = Some e"
  shows "\<exists>r\<in>set rs. \<exists>d'. fst (r d') = Some e"
  using assms
proof (induction rs arbitrary: d)
  case Nil
  then show ?case by simp
next
  case (Cons r rs)
  show ?case
  proof (cases "r d")
    case (Pair x d')
    show ?thesis
    proof (cases x)
      case None
      with Pair Cons.prems have "fst (first_failure rs d') = Some e" by simp
      then have "\<exists>r\<in>set rs. \<exists>d'. fst (r d') = Some e" by (rule Cons.IH)
      then show ?thesis by auto
    next
      case (Some e')
      with Pair Cons.prems have "fst (r d) = Some e" by simp
      then show ?thesis by auto
    qed
  qed
qed

lemma later_rules_not_expired:
  "fst (first_failure [rule_nbf utc_timestamp, rule_iat cfg utc_timestamp,
          rule_nonce cfg nonce validate_nonce] d)
     \<noteq> Some (SuspiciousOperation ''Signature has expired'')"
proof
  assume "fst (first_failure [rule_nbf utc_timestamp, rule_iat cfg utc_timestamp,
            rule_nonce cfg nonce validate_nonce] d)
          = Some (SuspiciousOperation ''Signature has expired'')"
  from first_failure_error_from_rule [OF this]
  show False
    by (auto dest: rule_nbf_message rule_iat_message rule_nonce_message)
qed

subsection \<open>Expiry\<close>

text \<open>
  C3: for a claim set that passes the rules before it, the expiry check passes exactly when
  the current UTC time in seconds is at most \<open>exp\<close>. Otherwise validation fails with
  \<open>Signature has expired\<close> (the specification's TokenExpired); when the check passes,
  validation goes on with the not-before, issued-at and nonce rules.
\<close>

theorem expiry_passes_iff_not_after_exp:
  assumes "first_failure (audience_rules urlparse cfg @ party_rules cfg) id_token = (None, d)"
      and "id_token ''exp'' = Some (JInt e)"
  shows "validate_claims urlparse cfg utc_timestamp id_token nonce validate_nonce =
           (if utc_timestamp \<le> e
            then first_failure [rule_nbf utc_timestamp, rule_iat cfg utc_timestamp,
                                rule_nonce cfg nonce validate_nonce] d
            else (Some (SuspiciousOperation ''Signature has expired''), d))
         \<and> (fst (validate_claims urlparse cfg utc_timestamp id_token nonce validate_nonce)
              = Some (SuspiciousOperation ''Signature has expired'') \<longleftrightarrow> \<not> utc_timestamp \<le> e)"
proof -
  let ?rest = "[rule_nbf utc_timestamp, rule_iat cfg utc_timestamp,
                rule_nonce cfg nonce validate_nonce]"
  have split: "claim_rules urlparse cfg utc_timestamp nonce validate_nonce
                 = (audience_rules urlparse cfg @ party_rules cfg)
                   @ (rule_expiry utc_timestamp # ?rest)"
    by (simp add: rule_lists)
  have exp: "d ''exp'' = Some (JInt e)"
    using prefix_other_keys [OF split assms(1), of "''exp''"] assms(2) by simp
  have run: "validate_claims urlparse cfg utc_timestamp id_token nonce validate_nonce
               = first_failure (rule_expiry utc_timestamp # ?rest) d"
    using split assms(1) by (rule validate_claims_after)
  have step: "first_failure (rule_expiry utc_timestamp # ?rest) d =
           (if utc_timestamp \<le> e then first_failure ?rest d
            else (Some (SuspiciousOperation ''Signature has expired''), d))"
    using exp by (simp add: first_failure_expiry evaluate_def raise_if_def getitem_def
        del: first_failure.simps(2))
  have later: "fst (first_failure ?rest d) \<noteq> Some (SuspiciousOperation ''Signature has expired'')"
    by (rule later_rules_not_expired)
  from run step later show ?thesis by simp
qed

text \<open>
  The three scenarios of the claim at the sample time 1000: \<open>exp = now - 1\<close> is rejected
  as expired, \<open>exp = now + 3600\<close> and \<open>exp = now\<close> are accepted.
\<close>

theorem expiry_passes_iff_not_after_exp_witness:
  "fst (validate_claims py_urlparse sample_settings sample_now
         (sample_claims(''exp'' \<mapsto> JInt (sample_now - 1))) (Some ''abc123'') True)
     = Some (SuspiciousOperation ''Signature has expired'')
   \<and> fst (validate_claims py_urlparse sample_settings sample_now
         (sample_claims(''exp'' \<mapsto> JInt (sample_now + 3600))) (Some ''abc123'') True)
     = None
   \<and> fst (validate_claims py_urlparse sample_settings sample_now
         (sample_claims(''exp'' \<mapsto> JInt sample_now)) (Some ''abc123'') True)
     = None"
proof -
  have pre: "first_failure (audience_rules py_urlparse sample_settings @ party_rules sample_settings)
               (sample_claims(''exp'' \<mapsto> JInt x))
             = (None, sample_claims(''exp'' \<mapsto> JInt x, ''aud'' \<mapsto> JList [JStr ''clientA'']))" for x
    by (rule sample_party_passes) (simp_all add: sample_claims_get)
  have rest: "first_failure [rule_nbf sample_now, rule_iat sample_settings sample_now,
                  rule_nonce sample_settings (Some ''abc123'') True]
                (sample_claims(''exp'' \<mapsto> JInt x, ''aud'' \<mapsto> JList [JStr ''clientA'']))
              = (None, sample_claims(''exp'' \<mapsto> JInt x, ''aud'' \<mapsto> JList [JStr ''clientA'']))" for x
    by (simp add: first_failure_rule evaluate_def raise_if_def getitem_def nbf_in_future_def
        get_or_None_def sample_claims_get sample_settings_get sample_now_def
        del: first_failure.simps(2))
  have a: "fst (validate_claims py_urlparse sample_settings sample_now
                  (sample_claims(''exp'' \<mapsto> JInt (sample_now - 1))) (Some ''abc123'') True)
             = Some (SuspiciousOperation ''Signature has expired'')"
    using expiry_passes_iff_not_after_exp [OF pre, of "sample_now - 1" "sample_now - 1" sample_now]
    by simp
  have b: "fst (validate_claims py_urlparse sample_settings sample_now
                  (sample_claims(''exp'' \<mapsto> JInt (sample_now + 3600))) (Some ''abc123'') True)
             = None"
    using expiry_passes_iff_not_after_exp
      [OF pre, of "sample_now + 3600" "sample_now + 3600" sample_now "Some ''abc123''" True]
    by (simp add: rest del: first_failure.simps)
  have c: "fst (validate_claims py_urlparse sample_settings sample_now
                  (sample_claims(''exp'' \<mapsto> JInt sample_now)) (Some ''abc123'') True)
             = None"
    using expiry_passes_iff_not_after_exp
      [OF pre, of sample_now sample_now sample_now "Some ''abc123''" True]
    by (simp add: rest del: first_failure.simps)
  from a b c show ?thesis by simp
qed

subsection \<open>Missing required claims\<close>

text \<open>
  C10: a claim set that lacks \<open>iss\<close>, \<open>aud\<close>, \<open>exp\<close> or \<open>iat\<close> makes the validator raise
  \<open>KeyError\<close> for that key, not a \<open>SuspiciousOperation\<close>, at the statement that reads the
  claim first: at once for \<open>iss\<close>, after the issuer rule for \<open>aud\<close>, after the audience
  and authorized-party rules for \<open>exp\<close>, after the expiry and not-before rules for \<open>iat\<close>.
\<close>

theorem missing_required_claim_raises_KeyError:
  "(id_token ''iss'' = None \<longrightarrow>
      validate_claims urlparse cfg utc_timestamp id_token nonce validate_nonce
        = (Some (KeyError ''iss''), id_token))
   \<and> (id_token ''aud'' = None \<and> first_failure [rule_issuer urlparse cfg] id_token = (None, d) \<longrightarrow>
      validate_claims urlparse cfg utc_timestamp id_token nonce validate_nonce
        = (Some (KeyError ''aud''), d))
   \<and> (id_token ''exp'' = None
        \<and> first_failure (audience_rules urlparse cfg @ party_rules cfg) id_token = (None, d) \<longrightarrow>
      validate_claims urlparse cfg utc_timestamp id_token nonce validate_nonce
        = (Some (KeyError ''exp''), d))
   \<and> (id_token ''iat'' = None
        \<and> first_failure (audience_rules urlparse cfg @ party_rules cfg
              @ [rule_expiry utc_timestamp, rule_nbf utc_timestamp]) id_token = (None, d) \<longrightarrow>
      validate_claims urlparse cfg utc_timestamp id_token nonce validate_nonce
        = (Some (KeyError ''iat''), d))"
proof (intro conjI impI)
  assume "id_token ''iss'' = None"
  then show "validate_claims urlparse cfg utc_timestamp id_token nonce validate_nonce
               = (Some (KeyError ''iss''), id_token)"
    by (simp add: validate_claims_rules rule_lists first_failure_issuer evaluate_def getitem_def
        del: first_failure.simps(2))
next
  let ?post = "rule_aud_normalize # rule_aud_member cfg # party_rules cfg
                 @ time_rules cfg utc_timestamp @ [rule_nonce cfg nonce validate_nonce]"
  assume h: "id_token ''aud'' = None \<and> first_failure [rule_issuer urlparse cfg] id_token = (None, d)"
  have split: "claim_rules urlparse cfg utc_timestamp nonce validate_nonce
                 = [rule_issuer urlparse cfg] @ ?post"
    by (simp add: rule_lists)
  from h have pre: "first_failure [rule_issuer urlparse cfg] id_token = (None, d)" by blast
  have "d ''aud'' = id_token ''aud''"
    using pre rule_keeps_dict(1) [of urlparse cfg id_token]
    by (simp split: prod.splits option.splits)
  with h have "d ''aud'' = None" by simp
  then have "first_failure ?post d = (Some (KeyError ''aud''), d)"
    by (simp add: first_failure_aud_normalize evaluate_def getitem_def
        del: first_failure.simps(2))
  with validate_claims_after [OF split pre]
  show "validate_claims urlparse cfg utc_timestamp id_token nonce validate_nonce
          = (Some (KeyError ''aud''), d)"
    by simp
next
  let ?post = "time_rules cfg utc_timestamp @ [rule_nonce cfg nonce validate_nonce]"
  assume h: "id_token ''exp'' = None
        \<and> first_failure (audience_rules urlparse cfg @ party_rules cfg) id_token = (None, d)"
  have split: "claim_rules urlparse cfg utc_timestamp nonce validate_nonce
                 = (audience_rules urlparse cfg @ party_rules cfg) @ ?post"
    by (simp add: rule_lists)
  from h have pre: "first_failure (audience_rules urlparse cfg @ party_rules cfg) id_token = (None, d)"
    by blast
  have "d ''exp'' = id_token ''exp''"
    using prefix_other_keys [OF split pre, of "''exp''"] by simp
  with h have "d ''exp'' = None" by simp
  then have "first_failure ?post d = (Some (KeyError ''exp''), d)"
    by (simp add: time_rules_def first_failure_expiry evaluate_def getitem_def
        del: first_failure.simps(2))
  with validate_claims_after [OF split pre]
  show "validate_claims urlparse cfg utc_timestamp id_token nonce validate_nonce
          = (Some (KeyError ''exp''), d)"
    by simp
next
  let ?pre = "audience_rules urlparse cfg @ party_rules cfg
                @ [rule_expiry utc_timestamp, rule_nbf utc_timestamp]"
  let ?post = "[rule_iat cfg utc_timestamp, rule_nonce cfg nonce validate_nonce]"
  assume h: "id_token ''iat'' = None \<and> first_failure ?pre id_token = (None, d)"
  have split: "claim_rules urlparse cfg utc_timestamp nonce validate_nonce = ?pre @ ?post"
    by (simp add: rule_lists)
  from h have pre: "first_failure ?pre id_token = (None, d)" by blast
  have "d ''iat'' = id_token ''iat''"
    using prefix_other_keys [OF split pre, of "''iat''"] by simp
  with h have "d ''iat'' = None" by simp
  then have "first_failure ?post d = (Some (KeyError ''iat''), d)"
    by (simp add: first_failure_iat evaluate_def getitem_def del: first_failure.simps(2))
  with validate_claims_after [OF split pre]
  show "validate_claims urlparse cfg utc_timestamp id_token nonce validate_nonce
          = (Some (KeyError ''iat''), d)"
    by simp
qed

text \<open>The sample claim set with each of the four required claims removed in turn.\<close>

theorem missing_required_claim_raises_KeyError_witness:
  "fst (validate_claims py_urlparse sample_settings sample_now
         (sample_claims(''iss'' := None)) (Some ''abc123'') True) = Some (KeyError ''iss'')
   \<and> fst (validate_claims py_urlparse sample_settings sample_now
         (sample_claims(''aud'' := None)) (Some ''abc123'') True) = Some (KeyError ''aud'')
   \<and> fst (validate_claims py_urlparse sample_settings sample_now
         (sample_claims(''exp'' := None)) (Some ''abc123'') True) = Some (KeyError ''exp'')
   \<and> fst (validate_claims py_urlparse sample_settings sample_now
         (sample_claims(''iat'' := None)) (Some ''abc123'') True) = Some (KeyError ''iat'')"
proof -
  note kerr = missing_required_claim_raises_KeyError
    [where urlparse = py_urlparse and cfg = sample_settings and utc_timestamp = sample_now
       and nonce = "Some ''abc123''" and validate_nonce = True]
  have "fst (validate_claims py_urlparse sample_settings sample_now
          (sample_claims(''iss'' := None)) (Some ''abc123'') True) = Some (KeyError ''iss'')"
    using kerr [where id_token = "sample_claims(''iss'' := None)"] by simp
  moreover
  have "first_failure [rule_issuer py_urlparse sample_settings] (sample_claims(''aud'' := None))
          = (None, sample_claims(''aud'' := None))"
    by (simp add: sample_issuer_passes sample_claims_get)
  then have "fst (validate_claims py_urlparse sample_settings sample_now
          (sample_claims(''aud'' := None)) (Some ''abc123'') True) = Some (KeyError ''aud'')"
    using kerr [where id_token = "sample_claims(''aud'' := None)"
        and d = "sample_claims(''aud'' := None)"]
    by (simp del: first_failure.simps)
  moreover
  have "first_failure (audience_rules py_urlparse sample_settings @ party_rules sample_settings)
          (sample_claims(''exp'' := None)) = (None, (sample_claims(''exp'' := None))(''aud'' \<mapsto> JList [JStr ''clientA'']))"
    by (rule sample_party_passes) (simp_all add: sample_claims_get)
  then have "fst (validate_claims py_urlparse sample_settings sample_now
          (sample_claims(''exp'' := None)) (Some ''abc123'') True) = Some (KeyError ''exp'')"
    using kerr [where id_token = "sample_claims(''exp'' := None)"
        and d = "(sample_claims(''exp'' := None))(''aud'' \<mapsto> JList [JStr ''clientA''])"]
    by (simp del: first_failure.simps)
  moreover
  have "first_failure (audience_rules py_urlparse sample_settings @ party_rules sample_settings
            @ [rule_expiry sample_now, rule_nbf sample_now])
          (sample_claims(''iat'' := None)) = (None, (sample_claims(''iat'' := None))(''aud'' \<mapsto> JList [JStr ''clientA'']))"
  proof -
    have "first_failure ((audience_rules py_urlparse sample_settings @ party_rules sample_settings)
            @ [rule_expiry sample_now, rule_nbf sample_now]) (sample_claims(''iat'' := None))
          = first_failure [rule_expiry sample_now, rule_nbf sample_now]
              ((sample_claims(''iat'' := None))(''aud'' \<mapsto> JList [JStr ''clientA'']))"
      by (intro first_failure_passes sample_party_passes) (simp_all add: sample_claims_get)
    also have "\<dots> = (None, (sample_claims(''iat'' := None))(''aud'' \<mapsto> JList [JStr ''clientA'']))"
      by (simp add: first_failure_rule evaluate_def raise_if_def getitem_def nbf_in_future_def
          sample_claims_get sample_now_def del: first_failure.simps(2))
    finally show ?thesis by simp
  qed
  then have "fst (validate_claims py_urlparse sample_settings sample_now
          (sample_claims(''iat'' := None)) (Some ''abc123'') True) = Some (KeyError ''iat'')"
    using kerr [where id_token = "sample_claims(''iat'' := None)"
        and d = "(sample_claims(''iat'' := None))(''aud'' \<mapsto> JList [JStr ''clientA''])"]
    by (simp del: first_failure.simps)
  ultimately show ?thesis by blast
qed

subsection \<open>Evaluating the validator on a concrete claim set\<close>

lemmas validate_claims_eval =
  validate_claims_def evaluate_def raise_if_def getitem_def get_or_None_def azp_differs_def
  nbf_in_future_def Let_def py_urlparse_sample sample_settings_get sample_claims_get
  sample_now_def two_audiences_def

lemma sample_two_audiences_pass:
  assumes "d ''iss'' = Some (JStr ''https://op.example.com'')"
      and "d ''aud'' = Some two_audiences"
  shows "first_failure (audience_rules py_urlparse sample_settings) d = (None, d)"
  using assms
  by (simp add: audience_rules_def sample_issuer_passes rule_aud_normalize_def
      rule_aud_member_def evaluate_def raise_if_def getitem_def sample_settings_get
      two_audiences_def)

lemma later_rules_not_audience:
  "fst (first_failure (party_rules cfg @ time_rules cfg utc_timestamp
          @ [rule_nonce cfg nonce validate_nonce]) d)
     \<noteq> Some (SuspiciousOperation ''Invalid audience'')"
proof
  assume "fst (first_failure (party_rules cfg @ time_rules cfg utc_timestamp
            @ [rule_nonce cfg nonce validate_nonce]) d)
          = Some (SuspiciousOperation ''Invalid audience'')"
  from first_failure_error_from_rule [OF this]
  show False
    by (auto simp: party_rules_def time_rules_def
        dest: rule_azp_present_message rule_azp_match_message rule_expiry_message
          rule_nbf_message rule_iat_message rule_nonce_message)
qed

lemma later_rules_not_azp:
  "fst (first_failure (time_rules cfg utc_timestamp @ [rule_nonce cfg nonce validate_nonce]) d)
     \<noteq> Some (SuspiciousOperation ''Incorrect id_token: azp'')"
proof
  assume "fst (first_failure (time_rules cfg utc_timestamp
            @ [rule_nonce cfg nonce validate_nonce]) d)
          = Some (SuspiciousOperation ''Incorrect id_token: azp'')"
  from first_failure_error_from_rule [OF this]
  show False
    by (auto simp: time_rules_def
        dest: rule_expiry_message rule_nbf_message rule_iat_message rule_nonce_message)
qed

lemma later_rules_not_issuer:
  "fst (first_failure (rule_aud_normalize # rule_aud_member cfg # party_rules cfg
          @ time_rules cfg utc_timestamp @ [rule_nonce cfg nonce validate_nonce]) d)
     \<noteq> Some (SuspiciousOperation ''Invalid issuer'')"
proof
  assume "fst (first_failure (rule_aud_normalize # rule_aud_member cfg # party_rules cfg
            @ time_rules cfg utc_timestamp @ [rule_nonce cfg nonce validate_nonce]) d)
          = Some (SuspiciousOperation ''Invalid issuer'')"
  from first_failure_error_from_rule [OF this]
  show False
    by (auto simp: party_rules_def time_rules_def rule_aud_normalize_message
        dest: rule_aud_member_message rule_azp_present_message rule_azp_match_message
          rule_expiry_message rule_nbf_message rule_iat_message rule_nonce_message)
qed

subsection \<open>Audience\<close>

text \<open>
  C5: for a claim set that passes the issuer rule and whose \<open>aud\<close> is a bare string, the
  string is replaced by the one-element list that holds it, and the membership test is made
  on that list: the audience check succeeds when the string equals the configured client
  ID, and validation goes on with the later rules; otherwise validation fails with
  \<open>Invalid audience\<close> (the specification's InvalidAudience).
\<close>

theorem bare_string_audience:
  assumes "fst (rule_issuer urlparse cfg id_token) = None"
      and "id_token ''aud'' = Some (JStr a)"
  shows "validate_claims urlparse cfg utc_timestamp id_token nonce validate_nonce =
           (if a = CLIENT_ID cfg
            then first_failure (party_rules cfg @ time_rules cfg utc_timestamp
                   @ [rule_nonce cfg nonce validate_nonce]) (id_token(''aud'' \<mapsto> JList [JStr a]))
            else (Some (SuspiciousOperation ''Invalid audience''),
                  id_token(''aud'' \<mapsto> JList [JStr a])))
         \<and> (fst (validate_claims urlparse cfg utc_timestamp id_token nonce validate_nonce)
              = Some (SuspiciousOperation ''Invalid audience'') \<longleftrightarrow> a \<noteq> CLIENT_ID cfg)"
proof -
  let ?post = "party_rules cfg @ time_rules cfg utc_timestamp @ [rule_nonce cfg nonce validate_nonce]"
  let ?d = "id_token(''aud'' \<mapsto> JList [JStr a])"
  have issuer: "rule_issuer urlparse cfg id_token = (None, id_token)"
    using assms(1) rule_keeps_dict(1) [of urlparse cfg id_token]
    by (cases "rule_issuer urlparse cfg id_token") simp
  have "validate_claims urlparse cfg utc_timestamp id_token nonce validate_nonce
          = first_failure (rule_aud_normalize # rule_aud_member cfg # ?post) id_token"
    using issuer by (simp add: validate_claims_rules rule_lists)
  also have "\<dots> = first_failure (rule_aud_member cfg # ?post) ?d"
    using assms(2)
    by (simp add: first_failure_aud_normalize evaluate_def getitem_def
        del: first_failure.simps(2))
  also have "\<dots> = (if a = CLIENT_ID cfg then first_failure ?post ?d
                    else (Some (SuspiciousOperation ''Invalid audience''), ?d))"
    by (auto simp: first_failure_aud_member evaluate_def raise_if_def getitem_def
        simp del: first_failure.simps(2))
  finally have run: "validate_claims urlparse cfg utc_timestamp id_token nonce validate_nonce
      = (if a = CLIENT_ID cfg then first_failure ?post ?d
         else (Some (SuspiciousOperation ''Invalid audience''), ?d))" .
  show ?thesis
  proof (cases "a = CLIENT_ID cfg")
    case True
    with run have "validate_claims urlparse cfg utc_timestamp id_token nonce validate_nonce
        = first_failure ?post ?d" by simp
    with True later_rules_not_audience [of cfg utc_timestamp nonce validate_nonce ?d] run
    show ?thesis by presburger
  next
    case False
    with run show ?thesis by simp
  qed
qed

text \<open>
  The sample claim set has the client ID as its bare-string audience and is accepted; with
  another string as audience it is rejected.
\<close>

theorem bare_string_audience_witness:
  "fst (rule_issuer py_urlparse sample_settings sample_claims) = None
   \<and> sample_claims ''aud'' = Some (JStr (CLIENT_ID sample_settings))
   \<and> validate_claims py_urlparse sample_settings sample_now sample_claims (Some ''abc123'') True
       = (None, sample_claims(''aud'' \<mapsto> JList [JStr ''clientA'']))
   \<and> fst (validate_claims py_urlparse sample_settings sample_now
            (sample_claims(''aud'' \<mapsto> JStr ''clientB'')) (Some ''abc123'') True)
       = Some (SuspiciousOperation ''Invalid audience'')"
proof -
  have i1: "fst (rule_issuer py_urlparse sample_settings sample_claims) = None"
    by (simp add: sample_issuer_passes sample_claims_get)
  have i2: "fst (rule_issuer py_urlparse sample_settings (sample_claims(''aud'' \<mapsto> JStr ''clientB'')))
              = None"
    by (simp add: sample_issuer_passes sample_claims_get)
  have a1: "sample_claims ''aud'' = Some (JStr ''clientA'')"
    by (simp add: sample_claims_get)
  have rest: "first_failure (party_rules sample_settings @ time_rules sample_settings sample_now
                @ [rule_nonce sample_settings (Some ''abc123'') True])
                (sample_claims(''aud'' \<mapsto> JList [JStr ''clientA'']))
              = (None, sample_claims(''aud'' \<mapsto> JList [JStr ''clientA'']))"
    by (simp add: party_rules_def time_rules_def first_failure_rule evaluate_def raise_if_def
        getitem_def get_or_None_def azp_differs_def nbf_in_future_def sample_claims_get
        sample_settings_get sample_now_def del: first_failure.simps(2))
  have ok: "validate_claims py_urlparse sample_settings sample_now sample_claims
              (Some ''abc123'') True
            = (None, sample_claims(''aud'' \<mapsto> JList [JStr ''clientA'']))"
    using bare_string_audience [OF i1 a1, of sample_now "Some ''abc123''" True] rest
    by (simp add: sample_settings_get)
  have bad: "fst (validate_claims py_urlparse sample_settings sample_now
                (sample_claims(''aud'' \<mapsto> JStr ''clientB'')) (Some ''abc123'') True)
             = Some (SuspiciousOperation ''Invalid audience'')"
    using bare_string_audience [OF i2, of "''clientB''" sample_now "Some ''abc123''" True]
    by (simp add: sample_settings_get)
  from i1 a1 ok bad show ?thesis by (simp add: sample_settings_get)
qed

subsection \<open>Authorized party\<close>

text \<open>
  C6: for a claim set that passes the issuer and audience rules and whose audience is a
  list, validation fails with \<open>Incorrect id_token: azp\<close> when the list has more than one
  entry and \<open>azp\<close> is absent (the specification's MissingAuthorizedParty), and when \<open>azp\<close>
  is present, whatever the number of audiences, and differs from the configured client ID
  (InvalidAuthorizedParty). In every other case both checks pass and validation goes on
  with the expiry rule; so it does for two audiences with \<open>azp\<close> equal to the client ID.
\<close>

theorem authorized_party_checks:
  assumes "first_failure (audience_rules urlparse cfg) id_token = (None, d)"
      and "d ''aud'' = Some (JList xs)"
  shows "(1 < length xs \<and> id_token ''azp'' = None \<longrightarrow>
            validate_claims urlparse cfg utc_timestamp id_token nonce validate_nonce
              = (Some (SuspiciousOperation ''Incorrect id_token: azp''), d))
         \<and> (\<forall>z. id_token ''azp'' = Some z \<and> z \<noteq> JStr (CLIENT_ID cfg) \<longrightarrow>
            validate_claims urlparse cfg utc_timestamp id_token nonce validate_nonce
              = (Some (SuspiciousOperation ''Incorrect id_token: azp''), d))
         \<and> (id_token ''azp'' = Some (JStr (CLIENT_ID cfg))
              \<or> (length xs \<le> 1 \<and> id_token ''azp'' = None) \<longrightarrow>
            validate_claims urlparse cfg utc_timestamp id_token nonce validate_nonce
              = first_failure (time_rules cfg utc_timestamp
                  @ [rule_nonce cfg nonce validate_nonce]) d
            \<and> fst (validate_claims urlparse cfg utc_timestamp id_token nonce validate_nonce)
                \<noteq> Some (SuspiciousOperation ''Incorrect id_token: azp''))"
proof -
  let ?post = "time_rules cfg utc_timestamp @ [rule_nonce cfg nonce validate_nonce]"
  have split: "claim_rules urlparse cfg utc_timestamp nonce validate_nonce
                 = audience_rules urlparse cfg @ (party_rules cfg @ ?post)"
    by (simp add: rule_lists)
  have azp: "d ''azp'' = id_token ''azp''"
    using prefix_other_keys [OF split assms(1), of "''azp''"] by simp
  have run: "validate_claims urlparse cfg utc_timestamp id_token nonce validate_nonce
               = first_failure (party_rules cfg @ ?post) d"
    using split assms(1) by (rule validate_claims_after)
  have step: "first_failure (party_rules cfg @ ?post) d =
      (if 1 < length xs \<and> d ''azp'' = None
       then (Some (SuspiciousOperation ''Incorrect id_token: azp''), d)
       else if azp_differs cfg d
       then (Some (SuspiciousOperation ''Incorrect id_token: azp''), d)
       else first_failure ?post d)"
    using assms(2)
    by (simp add: party_rules_def first_failure_azp_present first_failure_azp_match
        evaluate_def raise_if_def getitem_def del: first_failure.simps(2))
  show ?thesis
    using run step azp later_rules_not_azp [of cfg utc_timestamp nonce validate_nonce d]
    by (auto simp: azp_differs_def)
qed

text \<open>
  The scenario of the specification: two audiences without \<open>azp\<close> are rejected, two
  audiences with \<open>azp\<close> equal to the client ID are accepted; a single audience with
  another \<open>azp\<close> is rejected.
\<close>

theorem authorized_party_checks_witness:
  "fst (validate_claims py_urlparse sample_settings sample_now
         (sample_claims(''aud'' \<mapsto> two_audiences)) (Some ''abc123'') True)
     = Some (SuspiciousOperation ''Incorrect id_token: azp'')
   \<and> fst (validate_claims py_urlparse sample_settings sample_now
         (sample_claims(''aud'' \<mapsto> two_audiences, ''azp'' \<mapsto> JStr ''clientA''))
         (Some ''abc123'') True)
     = None
   \<and> fst (validate_claims py_urlparse sample_settings sample_now
         (sample_claims(''azp'' \<mapsto> JStr ''clientB'')) (Some ''abc123'') True)
     = Some (SuspiciousOperation ''Incorrect id_token: azp'')"
proof -
  let ?t1 = "sample_claims(''aud'' \<mapsto> two_audiences)"
  let ?t2 = "sample_claims(''aud'' \<mapsto> two_audiences, ''azp'' \<mapsto> JStr ''clientA'')"
  let ?t3 = "sample_claims(''azp'' \<mapsto> JStr ''clientB'')"
  have p1: "first_failure (audience_rules py_urlparse sample_settings) ?t1 = (None, ?t1)"
    by (rule sample_two_audiences_pass) (simp_all add: sample_claims_get)
  have p2: "first_failure (audience_rules py_urlparse sample_settings) ?t2 = (None, ?t2)"
    by (rule sample_two_audiences_pass) (simp_all add: sample_claims_get)
  have p3: "first_failure (audience_rules py_urlparse sample_settings) ?t3
              = (None, ?t3(''aud'' \<mapsto> JList [JStr ''clientA'']))"
    by (rule sample_audience_passes) (simp_all add: sample_claims_get)
  have a12: "?t1 ''aud'' = Some (JList [JStr ''clientA'', JStr ''clientB''])"
    "?t2 ''aud'' = Some (JList [JStr ''clientA'', JStr ''clientB''])"
    by (simp_all add: two_audiences_def)
  have a3: "(?t3(''aud'' \<mapsto> JList [JStr ''clientA''])) ''aud'' = Some (JList [JStr ''clientA''])"
    by simp
  have rest: "first_failure (time_rules sample_settings sample_now
                @ [rule_nonce sample_settings (Some ''abc123'') True]) ?t2 = (None, ?t2)"
    by (simp add: time_rules_def first_failure_rule evaluate_def raise_if_def
        getitem_def get_or_None_def nbf_in_future_def sample_claims_get
        sample_settings_get sample_now_def del: first_failure.simps(2))
  have r1: "fst (validate_claims py_urlparse sample_settings sample_now ?t1 (Some ''abc123'') True)
              = Some (SuspiciousOperation ''Incorrect id_token: azp'')"
    using authorized_party_checks
      [where urlparse = py_urlparse and cfg = sample_settings and id_token = "?t1"
         and d = "?t1" and xs = "[JStr ''clientA'', JStr ''clientB'']"
         and utc_timestamp = sample_now and nonce = "Some ''abc123''" and validate_nonce = True,
       OF p1 a12(1)]
    by (simp add: sample_claims_get)
  have "validate_claims py_urlparse sample_settings sample_now ?t2 (Some ''abc123'') True
          = first_failure (time_rules sample_settings sample_now
              @ [rule_nonce sample_settings (Some ''abc123'') True]) ?t2"
    using authorized_party_checks
      [where urlparse = py_urlparse and cfg = sample_settings and id_token = "?t2"
         and d = "?t2" and xs = "[JStr ''clientA'', JStr ''clientB'']"
         and utc_timestamp = sample_now and nonce = "Some ''abc123''" and validate_nonce = True,
       OF p2 a12(2)]
    by (simp add: sample_settings_get)
  with rest
  have r2: "fst (validate_claims py_urlparse sample_settings sample_now ?t2 (Some ''abc123'') True)
              = None"
    by simp
  have r3: "fst (validate_claims py_urlparse sample_settings sample_now ?t3 (Some ''abc123'') True)
              = Some (SuspiciousOperation ''Incorrect id_token: azp'')"
    using authorized_party_checks
      [where urlparse = py_urlparse and cfg = sample_settings and id_token = "?t3"
         and d = "?t3(''aud'' \<mapsto> JList [JStr ''clientA''])" and xs = "[JStr ''clientA'']"
         and utc_timestamp = sample_now and nonce = "Some ''abc123''" and validate_nonce = True,
       OF p3 a3]
    by (simp add: sample_settings_get)
  from r1 r2 r3 show ?thesis by simp
qed

subsection \<open>Nonce\<close>

text \<open>
  C4, as the code has it: for a claim set that passes the rules before the nonce rule, when
  \<open>validate_nonce\<close> is true and \<open>USE_NONCE\<close> is on, validation fails with
  \<open>Incorrect id_token: nonce\<close> (the specification's InvalidNonce) exactly when the token's
  \<open>nonce\<close> claim, read as \<open>None\<close> when absent, differs from the expected nonce. An absent
  claim is a mismatch for an expected nonce that is a string, and none for the expected
  nonce \<open>None\<close>. With either switch off the rule passes.
\<close>

theorem nonce_check:
  assumes "first_failure (audience_rules urlparse cfg @ party_rules cfg
             @ time_rules cfg utc_timestamp) id_token = (None, d)"
  shows "validate_claims urlparse cfg utc_timestamp id_token nonce validate_nonce =
           (if validate_nonce \<and> USE_NONCE cfg
                \<and> get_or_None id_token ''nonce'' \<noteq> nonce_value nonce
            then (Some (SuspiciousOperation ''Incorrect id_token: nonce''), d)
            else (None, d))
         \<and> (id_token ''nonce'' = None \<longrightarrow>
              get_or_None id_token ''nonce'' \<noteq> nonce_value nonce \<longleftrightarrow> nonce \<noteq> None)"
proof -
  let ?pre = "audience_rules urlparse cfg @ party_rules cfg @ time_rules cfg utc_timestamp"
  have split: "claim_rules urlparse cfg utc_timestamp nonce validate_nonce
                 = ?pre @ [rule_nonce cfg nonce validate_nonce]"
    by (simp add: rule_lists)
  have "d ''nonce'' = id_token ''nonce''"
    using prefix_other_keys [OF split assms, of "''nonce''"] by simp
  then have same: "get_or_None d ''nonce'' = get_or_None id_token ''nonce''"
    by (simp add: get_or_None_def)
  have run: "validate_claims urlparse cfg utc_timestamp id_token nonce validate_nonce
               = first_failure [rule_nonce cfg nonce validate_nonce] d"
    using split assms by (rule validate_claims_after)
  have absent: "id_token ''nonce'' = None \<longrightarrow>
      get_or_None id_token ''nonce'' \<noteq> nonce_value nonce \<longleftrightarrow> nonce \<noteq> None"
    by (cases nonce) (simp_all add: get_or_None_def)
  from run same absent show ?thesis
    by (simp add: first_failure_nonce raise_if_def del: first_failure.simps(2))
qed

text \<open>
  The scenario of the specification, with enforcement on and the expected nonce
  \<open>abc123\<close>: the token nonce \<open>xyz\<close> and an absent nonce are rejected, the equal nonce is
  accepted.
\<close>

theorem nonce_check_witness:
  "USE_NONCE sample_settings
   \<and> fst (validate_claims py_urlparse sample_settings sample_now
           (sample_claims(''nonce'' \<mapsto> JStr ''xyz'')) (Some ''abc123'') True)
       = Some (SuspiciousOperation ''Incorrect id_token: nonce'')
   \<and> fst (validate_claims py_urlparse sample_settings sample_now
           (sample_claims(''nonce'' := None)) (Some ''abc123'') True)
       = Some (SuspiciousOperation ''Incorrect id_token: nonce'')
   \<and> fst (validate_claims py_urlparse sample_settings sample_now
           sample_claims (Some ''abc123'') True)
       = None"
proof -
  let ?t1 = "sample_claims(''nonce'' \<mapsto> JStr ''xyz'')"
  let ?t2 = "sample_claims(''nonce'' := None)"
  let ?pre = "audience_rules py_urlparse sample_settings @ party_rules sample_settings
                @ time_rules sample_settings sample_now"
  have p1: "first_failure ?pre ?t1 = (None, ?t1(''aud'' \<mapsto> JList [JStr ''clientA'']))"
    by (rule sample_time_passes) (simp_all add: sample_claims_get)
  have p2: "first_failure ?pre ?t2 = (None, ?t2(''aud'' \<mapsto> JList [JStr ''clientA'']))"
    by (rule sample_time_passes) (simp_all add: sample_claims_get)
  have p3: "first_failure ?pre sample_claims
              = (None, sample_claims(''aud'' \<mapsto> JList [JStr ''clientA'']))"
    by (rule sample_time_passes) (simp_all add: sample_claims_get)
  have r1: "fst (validate_claims py_urlparse sample_settings sample_now ?t1 (Some ''abc123'') True)
              = Some (SuspiciousOperation ''Incorrect id_token: nonce'')"
    using nonce_check [where nonce = "Some ''abc123''" and validate_nonce = True, OF p1]
    by (simp add: get_or_None_def sample_settings_get)
  have r2: "fst (validate_claims py_urlparse sample_settings sample_now ?t2 (Some ''abc123'') True)
              = Some (SuspiciousOperation ''Incorrect id_token: nonce'')"
    using nonce_check [where nonce = "Some ''abc123''" and validate_nonce = True, OF p2]
    by (simp add: get_or_None_def sample_settings_get)
  have r3: "fst (validate_claims py_urlparse sample_settings sample_now sample_claims
                  (Some ''abc123'') True) = None"
    using nonce_check [where nonce = "Some ''abc123''" and validate_nonce = True, OF p3]
    by (simp add: get_or_None_def sample_settings_get sample_claims_get)
  from r1 r2 r3 show ?thesis by (simp add: sample_settings_get)
qed

text \<open>
  Against C4 as stated: with enforcement on and no expected nonce, a token without a
  \<open>nonce\<close> claim is accepted.
\<close>

theorem absent_nonce_counterexample:
  "USE_NONCE sample_settings
   \<and> (sample_claims(''nonce'' := None)) ''nonce'' = None
   \<and> validate_claims py_urlparse sample_settings sample_now
       (sample_claims(''nonce'' := None)) None True
     = (None, (sample_claims(''nonce'' := None))(''aud'' \<mapsto> JList [JStr ''clientA'']))"
  by (simp add: validate_claims_eval)

subsection \<open>Issuer\<close>

text \<open>
  C2, as the code has it: for a claim set with an \<open>iss\<close> claim that \<open>urlparse\<close> accepts,
  the issuer check passes if and only if the \<open>netloc\<close> component of \<open>iss\<close> equals the
  \<open>netloc\<close> component of the configured provider endpoint. The scheme, the path and a
  trailing slash take no part in the comparison. On a mismatch validation fails with
  \<open>Invalid issuer\<close> (the specification's InvalidIssuer) before any other claim is read;
  otherwise it goes on with the audience rules.
\<close>

theorem issuer_check_compares_netloc:
  assumes "id_token ''iss'' = Some iss"
      and "urlparse iss = Inr iss_parsed_url"
      and "urlparse (JStr (PROVIDER_ENDPOINT cfg)) = Inr provider_parsed_url"
  shows "validate_claims urlparse cfg utc_timestamp id_token nonce validate_nonce =
           (if netloc iss_parsed_url = netloc provider_parsed_url
            then first_failure (rule_aud_normalize # rule_aud_member cfg # party_rules cfg
                   @ time_rules cfg utc_timestamp @ [rule_nonce cfg nonce validate_nonce]) id_token
            else (Some (SuspiciousOperation ''Invalid issuer''), id_token))
         \<and> (fst (validate_claims urlparse cfg utc_timestamp id_token nonce validate_nonce)
              = Some (SuspiciousOperation ''Invalid issuer'')
            \<longleftrightarrow> netloc iss_parsed_url \<noteq> netloc provider_parsed_url)"
proof -
  let ?post = "rule_aud_normalize # rule_aud_member cfg # party_rules cfg
                 @ time_rules cfg utc_timestamp @ [rule_nonce cfg nonce validate_nonce]"
  have "validate_claims urlparse cfg utc_timestamp id_token nonce validate_nonce
          = first_failure (rule_issuer urlparse cfg # ?post) id_token"
    by (simp add: validate_claims_rules rule_lists)
  also have "\<dots> = (if netloc iss_parsed_url = netloc provider_parsed_url
                    then first_failure ?post id_token
                    else (Some (SuspiciousOperation ''Invalid issuer''), id_token))"
    using assms
    by (simp add: first_failure_issuer evaluate_def raise_if_def getitem_def
        del: first_failure.simps(2))
  finally have run: "validate_claims urlparse cfg utc_timestamp id_token nonce validate_nonce
      = (if netloc iss_parsed_url = netloc provider_parsed_url
         then first_failure ?post id_token
         else (Some (SuspiciousOperation ''Invalid issuer''), id_token))" .
  show ?thesis
  proof (cases "netloc iss_parsed_url = netloc provider_parsed_url")
    case True
    with run have "validate_claims urlparse cfg utc_timestamp id_token nonce validate_nonce
        = first_failure ?post id_token" by simp
    with True later_rules_not_issuer [of cfg utc_timestamp nonce validate_nonce id_token] run
    show ?thesis by presburger
  next
    case False
    with run show ?thesis by simp
  qed
qed

text \<open>
  The scenario of the specification: the issuer \<open>https://op.example.com\<close> passes against
  the endpoint \<open>https://op.example.com/\<close>. An issuer on another host is rejected as
  \<open>Invalid issuer\<close> although the token also lacks \<open>exp\<close>.
\<close>

theorem issuer_check_compares_netloc_witness:
  "sample_claims ''iss'' = Some (JStr ''https://op.example.com'')
   \<and> PROVIDER_ENDPOINT sample_settings = ''https://op.example.com/''
   \<and> fst (validate_claims py_urlparse sample_settings sample_now sample_claims
           (Some ''abc123'') True)
       \<noteq> Some (SuspiciousOperation ''Invalid issuer'')
   \<and> validate_claims py_urlparse sample_settings sample_now
       (sample_claims(''iss'' \<mapsto> JStr ''https://evil.example.net/'', ''exp'' := None))
       (Some ''abc123'') True
     = (Some (SuspiciousOperation ''Invalid issuer''),
        sample_claims(''iss'' \<mapsto> JStr ''https://evil.example.net/'', ''exp'' := None))"
proof -
  let ?t = "sample_claims(''iss'' \<mapsto> JStr ''https://evil.example.net/'', ''exp'' := None)"
  have e: "py_urlparse (JStr (PROVIDER_ENDPOINT sample_settings))
             = Inr \<lparr>scheme = Str ''https'', netloc = Str ''op.example.com''\<rparr>"
    by (simp add: sample_settings_get py_urlparse_sample)
  have i1: "sample_claims ''iss'' = Some (JStr ''https://op.example.com'')"
    by (simp add: sample_claims_get)
  have i2: "?t ''iss'' = Some (JStr ''https://evil.example.net/'')"
    by simp
  have r1: "fst (validate_claims py_urlparse sample_settings sample_now sample_claims
                  (Some ''abc123'') True) \<noteq> Some (SuspiciousOperation ''Invalid issuer'')"
    using issuer_check_compares_netloc
      [where urlparse = py_urlparse and cfg = sample_settings and id_token = sample_claims
         and utc_timestamp = sample_now and nonce = "Some ''abc123''" and validate_nonce = True,
       OF i1 py_urlparse_sample(1) e, THEN conjunct2]
    by simp
  have r2: "validate_claims py_urlparse sample_settings sample_now ?t (Some ''abc123'') True
              = (Some (SuspiciousOperation ''Invalid issuer''), ?t)"
    using issuer_check_compares_netloc
      [where urlparse = py_urlparse and cfg = sample_settings and id_token = ?t
         and utc_timestamp = sample_now and nonce = "Some ''abc123''" and validate_nonce = True,
       OF i2 py_urlparse_sample(4) e]
    by simp
  from i1 r1 r2 show ?thesis by (simp add: sample_settings_get)
qed

text \<open>
  Against C2 as stated: the issuer \<open>http://op.example.com\<close> differs from the endpoint
  \<open>https://op.example.com/\<close> in its scheme, and the token is accepted.
\<close>

theorem issuer_scheme_counterexample:
  "py_urlparse (JStr ''http://op.example.com'')
     = Inr \<lparr>scheme = Str ''http'', netloc = Str ''op.example.com''\<rparr>
   \<and> py_urlparse (JStr (PROVIDER_ENDPOINT sample_settings))
     = Inr \<lparr>scheme = Str ''https'', netloc = Str ''op.example.com''\<rparr>
   \<and> validate_claims py_urlparse sample_settings sample_now
       (sample_claims(''iss'' \<mapsto> JStr ''http://op.example.com'')) (Some ''abc123'') True
     = (None, sample_claims(''iss'' \<mapsto> JStr ''http://op.example.com'',
                ''aud'' \<mapsto> JList [JStr ''clientA'']))"
  by (simp add: validate_claims_eval)

subsection \<open>Effect on the caller's dict\<close>

lemma validate_claims_dict:
  "snd (validate_claims urlparse cfg utc_timestamp id_token nonce validate_nonce) =
     (if fst (rule_issuer urlparse cfg id_token) = None
      then (case id_token ''aud'' of
              Some (JStr a) \<Rightarrow> id_token(''aud'' \<mapsto> JList [JStr a])
            | _ \<Rightarrow> id_token)
      else id_token)"
proof -
  let ?post = "rule_aud_member cfg # party_rules cfg @ time_rules cfg utc_timestamp
                 @ [rule_nonce cfg nonce validate_nonce]"
  have run: "validate_claims urlparse cfg utc_timestamp id_token nonce validate_nonce
      = first_failure (rule_issuer urlparse cfg # rule_aud_normalize # ?post) id_token"
    by (simp add: validate_claims_rules rule_lists)
  have post: "snd (first_failure ?post d) = d" for d
    by (rule after_normalize_keeps_dict)
  show ?thesis
  proof (cases "rule_issuer urlparse cfg id_token")
    case (Pair x d0)
    with rule_keeps_dict(1) [of urlparse cfg id_token] have d0: "d0 = id_token" by simp
    show ?thesis
    proof (cases x)
      case (Some e)
      with Pair d0 run show ?thesis by simp
    next
      case None
      with Pair d0 have "validate_claims urlparse cfg utc_timestamp id_token nonce validate_nonce
          = first_failure (rule_aud_normalize # ?post) id_token"
        using run by simp
      also have "\<dots> = evaluate (getitem id_token ''aud'') id_token (\<lambda>aud.
          first_failure ?post
            (if isinstance_str aud then id_token(''aud'' \<mapsto> JList [aud]) else id_token))"
        by (rule first_failure_aud_normalize)
      finally have "snd (validate_claims urlparse cfg utc_timestamp id_token nonce validate_nonce)
          = (case id_token ''aud'' of
               Some (JStr a) \<Rightarrow> id_token(''aud'' \<mapsto> JList [JStr a])
             | _ \<Rightarrow> id_token)"
        by (simp add: evaluate_def getitem_def post del: first_failure.simps(2)
            split: option.splits json.splits)
      with None Pair show ?thesis by simp
    qed
  qed
qed

text \<open>
  C9, as the code has it: validation changes at most the \<open>aud\<close> entry of the caller's
  claims mapping. When the issuer check passes and \<open>aud\<close> is a bare string, the mapping
  afterwards holds the one-element list with that string under \<open>aud\<close>, also when a later
  rule fails; in every other case, and for every other claim, the mapping is unchanged.
\<close>

theorem validation_changes_only_bare_string_aud:
  "snd (validate_claims urlparse cfg utc_timestamp id_token nonce validate_nonce) =
     (if fst (rule_issuer urlparse cfg id_token) = None
      then (case id_token ''aud'' of
              Some (JStr a) \<Rightarrow> id_token(''aud'' \<mapsto> JList [JStr a])
            | _ \<Rightarrow> id_token)
      else id_token)
   \<and> (\<forall>k. k \<noteq> ''aud'' \<longrightarrow>
         snd (validate_claims urlparse cfg utc_timestamp id_token nonce validate_nonce) k
           = id_token k)"
proof (intro conjI allI impI)
  show "snd (validate_claims urlparse cfg utc_timestamp id_token nonce validate_nonce) =
     (if fst (rule_issuer urlparse cfg id_token) = None
      then (case id_token ''aud'' of
              Some (JStr a) \<Rightarrow> id_token(''aud'' \<mapsto> JList [JStr a])
            | _ \<Rightarrow> id_token)
      else id_token)"
    by (rule validate_claims_dict)
next
  fix k :: string
  assume "k \<noteq> ''aud''"
  then show "snd (validate_claims urlparse cfg utc_timestamp id_token nonce validate_nonce) k
               = id_token k"
    by (simp add: validate_claims_dict split: option.splits json.splits)
qed

text \<open>
  A token with two audiences comes back as it went in; the subject of the sample token is
  left alone.
\<close>

theorem validation_changes_only_bare_string_aud_witness:
  "snd (validate_claims py_urlparse sample_settings sample_now
         (sample_claims(''aud'' \<mapsto> two_audiences)) (Some ''abc123'') True)
     = sample_claims(''aud'' \<mapsto> two_audiences)
   \<and> snd (validate_claims py_urlparse sample_settings sample_now sample_claims
           (Some ''abc123'') True) ''sub''
     = sample_claims ''sub''"
proof -
  have a: "snd (validate_claims py_urlparse sample_settings sample_now
             (sample_claims(''aud'' \<mapsto> two_audiences)) (Some ''abc123'') True)
           = sample_claims(''aud'' \<mapsto> two_audiences)"
    using validation_changes_only_bare_string_aud
      [where urlparse = py_urlparse and cfg = sample_settings and utc_timestamp = sample_now
         and id_token = "sample_claims(''aud'' \<mapsto> two_audiences)"
         and nonce = "Some ''abc123''" and validate_nonce = True]
    by (simp add: two_audiences_def)
  have b: "snd (validate_claims py_urlparse sample_settings sample_now sample_claims
             (Some ''abc123'') True) ''sub'' = sample_claims ''sub''"
    using validation_changes_only_bare_string_aud
      [where urlparse = py_urlparse and cfg = sample_settings and utc_timestamp = sample_now
         and id_token = sample_claims and nonce = "Some ''abc123''" and validate_nonce = True,
       THEN conjunct2, rule_format, of "''sub''"]
    by simp
  from a b show ?thesis by simp
qed

text \<open>
  Against C9 as stated: validating the sample token, whose audience is the bare string
  \<open>clientA\<close>, leaves the list \<open>[clientA]\<close> under \<open>aud\<close> in the caller's mapping.
\<close>

theorem validation_mutates_aud_counterexample:
  "sample_claims ''aud'' = Some (JStr ''clientA'')
   \<and> snd (validate_claims py_urlparse sample_settings sample_now sample_claims
           (Some ''abc123'') True) ''aud''
       = Some (JList [JStr ''clientA''])
   \<and> snd (validate_claims py_urlparse sample_settings sample_now sample_claims
           (Some ''abc123'') True)
       \<noteq> sample_claims"
proof -
  have v: "validate_claims py_urlparse sample_settings sample_now sample_claims
             (Some ''abc123'') True
           = (None, sample_claims(''aud'' \<mapsto> JList [JStr ''clientA'']))"
    by (simp add: validate_claims_eval)
  have "(sample_claims(''aud'' \<mapsto> JList [JStr ''clientA''])) ''aud'' \<noteq> sample_claims ''aud''"
    by (simp add: sample_claims_get)
  then have "sample_claims(''aud'' \<mapsto> JList [JStr ''clientA'']) \<noteq> sample_claims"
    by metis
  with v show ?thesis by (simp add: sample_claims_get)
qed

subsection \<open>Distinct errors\<close>

lemma claim_rule_messages:
  assumes "\<And>v m. urlparse v \<noteq> Inl (SuspiciousOperation m)"
  shows "list_all2 (\<lambda>r msg. \<forall>d m. fst (r d) = Some (SuspiciousOperation m) \<longrightarrow> msg \<noteq> [] \<and> m = msg)
           (claim_rules urlparse cfg utc_timestamp nonce validate_nonce)
           [''Invalid issuer'', [], ''Invalid audience'', ''Incorrect id_token: azp'',
            ''Incorrect id_token: azp'', ''Signature has expired'', ''Incorrect id_token: nbf'',
            ''Incorrect id_token: iat'', ''Incorrect id_token: nonce'']"
  using assms
  by (auto simp: rule_lists rule_aud_normalize_message
      dest: rule_issuer_message rule_aud_member_message rule_azp_present_message
        rule_azp_match_message rule_expiry_message rule_nbf_message rule_iat_message
        rule_nonce_message)

lemma rule_messages_differ:
  "\<forall>j<9. \<forall>i<j. (i, j) \<noteq> (3, 4) \<longrightarrow>
     [''Invalid issuer'', [], ''Invalid audience'', ''Incorrect id_token: azp'',
      ''Incorrect id_token: azp'', ''Signature has expired'', ''Incorrect id_token: nbf'',
      ''Incorrect id_token: iat'', ''Incorrect id_token: nonce''] ! i
     \<noteq> [''Invalid issuer'', [], ''Invalid audience'', ''Incorrect id_token: azp'',
      ''Incorrect id_token: azp'', ''Signature has expired'', ''Incorrect id_token: nbf'',
      ''Incorrect id_token: iat'', ''Incorrect id_token: nonce''] ! j"
  by (simp add: eval_nat_numeral All_less_Suc)

lemma rule_issuer_error:
  assumes "fst (rule_issuer urlparse cfg d) = Some e"
  shows "e = SuspiciousOperation ''Invalid issuer'' \<or> e = KeyError ''iss''
           \<or> (\<exists>v. urlparse v = Inl e)"
  using assms
  by (auto simp: rule_issuer_def evaluate_def raise_if_def split: sum.splits if_splits
      dest: getitem_raises)

lemma rule_aud_normalize_error:
  assumes "fst (rule_aud_normalize d) = Some e"
  shows "e = KeyError ''aud''"
  using assms
  by (auto simp: rule_aud_normalize_def evaluate_def split: sum.splits dest: getitem_raises)

lemma rule_aud_member_error:
  assumes "fst (rule_aud_member cfg d) = Some e"
  shows "e = SuspiciousOperation ''Invalid audience'' \<or> e = KeyError ''aud'' \<or> e = TypeError"
  using assms
  by (auto simp: rule_aud_member_def evaluate_def raise_if_def split: sum.splits if_splits
      dest: getitem_raises py_in_raises)

lemma rule_azp_present_error:
  assumes "fst (rule_azp_present d) = Some e"
  shows "e = SuspiciousOperation ''Incorrect id_token: azp'' \<or> e = KeyError ''aud''
           \<or> e = TypeError"
  using assms
  by (auto simp: rule_azp_present_def evaluate_def raise_if_def split: sum.splits if_splits
      dest: getitem_raises py_len_raises)

lemma rule_azp_match_error:
  assumes "fst (rule_azp_match cfg d) = Some e"
  shows "e = SuspiciousOperation ''Incorrect id_token: azp''"
  using assms by (auto simp: rule_azp_match_def raise_if_def split: if_splits)

lemma rule_expiry_error:
  assumes "fst (rule_expiry utc_timestamp d) = Some e"
  shows "e = SuspiciousOperation ''Signature has expired'' \<or> e = KeyError ''exp''
           \<or> e = TypeError"
  using assms
  by (auto simp: rule_expiry_def evaluate_def raise_if_def split: sum.splits if_splits
      dest: getitem_raises py_int_raises)

lemma rule_nbf_error:
  assumes "fst (rule_nbf utc_timestamp d) = Some e"
  shows "e = SuspiciousOperation ''Incorrect id_token: nbf'' \<or> e = TypeError"
  using assms
  by (auto simp: rule_nbf_def evaluate_def raise_if_def split: sum.splits if_splits
      dest: nbf_in_future_raises)

lemma rule_iat_error:
  assumes "fst (rule_iat cfg utc_timestamp d) = Some e"
  shows "e = SuspiciousOperation ''Incorrect id_token: iat'' \<or> e = KeyError ''iat''
           \<or> e = TypeError"
  using assms
  by (auto simp: rule_iat_def evaluate_def raise_if_def split: sum.splits if_splits
      dest: getitem_raises py_int_raises)

lemma rule_nonce_error:
  assumes "fst (rule_nonce cfg nonce validate_nonce d) = Some e"
  shows "e = SuspiciousOperation ''Incorrect id_token: nonce''"
  using assms by (auto simp: rule_nonce_def raise_if_def split: if_splits)

lemma claim_rule_errors:
  assumes "r \<in> set (claim_rules urlparse cfg utc_timestamp nonce validate_nonce)"
      and "fst (r d) = Some e"
  shows "e \<in> SuspiciousOperation ` set [''Invalid issuer'', ''Invalid audience'',
               ''Incorrect id_token: azp'', ''Signature has expired'',
               ''Incorrect id_token: nbf'', ''Incorrect id_token: iat'',
               ''Incorrect id_token: nonce'']
         \<or> e \<in> KeyError ` set [''iss'', ''aud'', ''exp'', ''iat'']
         \<or> e = TypeError
         \<or> (\<exists>v. urlparse v = Inl e)"
proof -
  from assms(1) consider
      (issuer) "r = rule_issuer urlparse cfg"
    | (normalize) "r = rule_aud_normalize"
    | (member) "r = rule_aud_member cfg"
    | (present) "r = rule_azp_present"
    | (match) "r = rule_azp_match cfg"
    | (expiry) "r = rule_expiry utc_timestamp"
    | (nbf) "r = rule_nbf utc_timestamp"
    | (iat) "r = rule_iat cfg utc_timestamp"
    | (nonce) "r = rule_nonce cfg nonce validate_nonce"
    by (auto simp: rule_lists)
  then show ?thesis
  proof cases
    case issuer
    with assms(2) rule_issuer_error [of urlparse cfg d e] show ?thesis by auto
  next
    case normalize
    with assms(2) rule_aud_normalize_error [of d e] show ?thesis by auto
  next
    case member
    with assms(2) rule_aud_member_error [of cfg d e] show ?thesis by auto
  next
    case present
    with assms(2) rule_azp_present_error [of d e] show ?thesis by auto
  next
    case match
    with assms(2) rule_azp_match_error [of cfg d e] show ?thesis by auto
  next
    case expiry
    with assms(2) rule_expiry_error [of utc_timestamp d e] show ?thesis by auto
  next
    case nbf
    with assms(2) rule_nbf_error [of utc_timestamp d e] show ?thesis by auto
  next
    case iat
    with assms(2) rule_iat_error [of cfg utc_timestamp d e] show ?thesis by auto
  next
    case nonce
    with assms(2) rule_nonce_error [of cfg nonce validate_nonce d e] show ?thesis by auto
  qed
qed

lemma validate_claims_errors:
  assumes "fst (validate_claims urlparse cfg utc_timestamp id_token nonce validate_nonce) = Some e"
  shows "e \<in> SuspiciousOperation ` set [''Invalid issuer'', ''Invalid audience'',
               ''Incorrect id_token: azp'', ''Signature has expired'',
               ''Incorrect id_token: nbf'', ''Incorrect id_token: iat'',
               ''Incorrect id_token: nonce'']
         \<or> e \<in> KeyError ` set [''iss'', ''aud'', ''exp'', ''iat'']
         \<or> e = TypeError
         \<or> (\<exists>v. urlparse v = Inl e)"
proof -
  from assms
  have "fst (first_failure (claim_rules urlparse cfg utc_timestamp nonce validate_nonce) id_token)
          = Some e"
    by (simp add: validate_claims_rules)
  then obtain r d' where "r \<in> set (claim_rules urlparse cfg utc_timestamp nonce validate_nonce)"
    and "fst (r d') = Some e"
    using first_failure_error_from_rule by blast
  then show ?thesis by (rule claim_rule_errors)
qed

lemma claim_rule_message_at:
  assumes "\<And>v m. urlparse v \<noteq> Inl (SuspiciousOperation m)"
      and "i < 9"
      and "fst ((claim_rules urlparse cfg utc_timestamp nonce validate_nonce ! i) d)
             = Some (SuspiciousOperation m)"
  shows "i \<noteq> 1 \<and> m = [''Invalid issuer'', [], ''Invalid audience'', ''Incorrect id_token: azp'',
           ''Incorrect id_token: azp'', ''Signature has expired'', ''Incorrect id_token: nbf'',
           ''Incorrect id_token: iat'', ''Incorrect id_token: nonce''] ! i"
proof -
  let ?msgs = "[''Invalid issuer'', [], ''Invalid audience'', ''Incorrect id_token: azp'',
           ''Incorrect id_token: azp'', ''Signature has expired'', ''Incorrect id_token: nbf'',
           ''Incorrect id_token: iat'', ''Incorrect id_token: nonce'']"
  have len: "length (claim_rules urlparse cfg utc_timestamp nonce validate_nonce) = 9"
    by (simp add: rule_lists)
  have "list_all2 (\<lambda>r msg. \<forall>d m. fst (r d) = Some (SuspiciousOperation m) \<longrightarrow> msg \<noteq> [] \<and> m = msg)
          (claim_rules urlparse cfg utc_timestamp nonce validate_nonce) ?msgs"
    using assms(1) by (rule claim_rule_messages)
  then have "\<forall>d m. fst ((claim_rules urlparse cfg utc_timestamp nonce validate_nonce ! i) d)
                 = Some (SuspiciousOperation m) \<longrightarrow> ?msgs ! i \<noteq> [] \<and> m = ?msgs ! i"
    by (rule list_all2_nthD) (simp add: len assms(2))
  with assms(3) have m: "?msgs ! i \<noteq> []" "m = ?msgs ! i" by blast+
  from m(1) have "i \<noteq> 1" by auto
  with m(2) show ?thesis by simp
qed

text \<open>
  C8, as the code has it. A failure of claim validation is a \<open>SuspiciousOperation\<close> with one
  of seven messages, or, for a missing or ill-typed claim, a \<open>KeyError\<close> for \<open>iss\<close>, \<open>aud\<close>,
  \<open>exp\<close> or \<open>iat\<close>, a \<open>TypeError\<close>, or an exception that \<open>urlparse\<close> raised. A
  \<open>SuspiciousOperation\<close> raised by a rule carries the message of that rule, as listed for
  the nine rules in order (audience normalization raises none). So the
  \<open>SuspiciousOperation\<close> failures of two different rules differ, with one exception: rule 4
  (several audiences, no \<open>azp\<close>) and rule 5 (\<open>azp\<close> differs from the client ID), at positions
  3 and 4 of the list, raise the same error. The two rules may be applied to any two claim
  sets at any two times; \<open>urlparse\<close> itself is assumed not to raise \<open>SuspiciousOperation\<close>.
\<close>

theorem rule_errors_distinct_except_azp:
  assumes "\<And>v m. urlparse v \<noteq> Inl (SuspiciousOperation m)"
  shows "(\<forall>e. fst (validate_claims urlparse cfg utc_timestamp id_token nonce validate_nonce) = Some e
            \<longrightarrow> e \<in> SuspiciousOperation ` set [''Invalid issuer'', ''Invalid audience'',
                       ''Incorrect id_token: azp'', ''Signature has expired'',
                       ''Incorrect id_token: nbf'', ''Incorrect id_token: iat'',
                       ''Incorrect id_token: nonce'']
                \<or> e \<in> KeyError ` set [''iss'', ''aud'', ''exp'', ''iat'']
                \<or> e = TypeError
                \<or> (\<exists>v. urlparse v = Inl e))
       \<and> (\<forall>i d m. i < 9
              \<and> fst ((claim_rules urlparse cfg utc_timestamp nonce validate_nonce ! i) d)
                  = Some (SuspiciousOperation m)
            \<longrightarrow> i \<noteq> 1
                \<and> m = [''Invalid issuer'', [], ''Invalid audience'', ''Incorrect id_token: azp'',
                       ''Incorrect id_token: azp'', ''Signature has expired'',
                       ''Incorrect id_token: nbf'', ''Incorrect id_token: iat'',
                       ''Incorrect id_token: nonce''] ! i)
       \<and> (\<forall>i j d d' m m'. i < j \<and> j < 9 \<and> (i, j) \<noteq> (3, 4)
              \<and> fst ((claim_rules urlparse cfg utc_timestamp nonce validate_nonce ! i) d)
                  = Some (SuspiciousOperation m)
              \<and> fst ((claim_rules urlparse cfg utc_timestamp' nonce' validate_nonce' ! j) d')
                  = Some (SuspiciousOperation m')
            \<longrightarrow> SuspiciousOperation m \<noteq> SuspiciousOperation m')"
proof (intro conjI allI impI)
  fix e
  assume "fst (validate_claims urlparse cfg utc_timestamp id_token nonce validate_nonce) = Some e"
  then show "e \<in> SuspiciousOperation ` set [''Invalid issuer'', ''Invalid audience'',
                       ''Incorrect id_token: azp'', ''Signature has expired'',
                       ''Incorrect id_token: nbf'', ''Incorrect id_token: iat'',
                       ''Incorrect id_token: nonce'']
                \<or> e \<in> KeyError ` set [''iss'', ''aud'', ''exp'', ''iat'']
                \<or> e = TypeError
                \<or> (\<exists>v. urlparse v = Inl e)"
    by (rule validate_claims_errors)
next
  fix i d m
  assume h: "i < 9
              \<and> fst ((claim_rules urlparse cfg utc_timestamp nonce validate_nonce ! i) d)
                  = Some (SuspiciousOperation m)"
  then have "i < 9"
    and "fst ((claim_rules urlparse cfg utc_timestamp nonce validate_nonce ! i) d)
           = Some (SuspiciousOperation m)"
    by blast+
  with assms
  have both: "i \<noteq> 1 \<and> m = [''Invalid issuer'', [], ''Invalid audience'', ''Incorrect id_token: azp'',
                       ''Incorrect id_token: azp'', ''Signature has expired'',
                       ''Incorrect id_token: nbf'', ''Incorrect id_token: iat'',
                       ''Incorrect id_token: nonce''] ! i"
    by (rule claim_rule_message_at)
  from both show "i \<noteq> 1" by blast
  from both show "m = [''Invalid issuer'', [], ''Invalid audience'', ''Incorrect id_token: azp'',
                       ''Incorrect id_token: azp'', ''Signature has expired'',
                       ''Incorrect id_token: nbf'', ''Incorrect id_token: iat'',
                       ''Incorrect id_token: nonce''] ! i"
    by blast
next
  fix i j d d' m m'
  let ?msgs = "[''Invalid issuer'', [], ''Invalid audience'', ''Incorrect id_token: azp'',
           ''Incorrect id_token: azp'', ''Signature has expired'', ''Incorrect id_token: nbf'',
           ''Incorrect id_token: iat'', ''Incorrect id_token: nonce'']"
  assume h: "i < j \<and> j < 9 \<and> (i, j) \<noteq> (3, 4)
              \<and> fst ((claim_rules urlparse cfg utc_timestamp nonce validate_nonce ! i) d)
                  = Some (SuspiciousOperation m)
              \<and> fst ((claim_rules urlparse cfg utc_timestamp' nonce' validate_nonce' ! j) d')
                  = Some (SuspiciousOperation m')"
  then have ij: "i < j" "j < 9" "(i, j) \<noteq> (3, 4)"
    and ri: "fst ((claim_rules urlparse cfg utc_timestamp nonce validate_nonce ! i) d)
               = Some (SuspiciousOperation m)"
    and rj: "fst ((claim_rules urlparse cfg utc_timestamp' nonce' validate_nonce' ! j) d')
               = Some (SuspiciousOperation m')"
    by blast+
  from ij have i: "i < 9" by simp
  from claim_rule_message_at [OF assms i ri] have "m = ?msgs ! i" by blast
  moreover from claim_rule_message_at [OF assms ij(2) rj] have "m' = ?msgs ! j" by blast
  moreover have "?msgs ! i \<noteq> ?msgs ! j"
    using rule_messages_differ ij by blast
  ultimately show "SuspiciousOperation m \<noteq> SuspiciousOperation m'" by simp
qed

text \<open>
  A token of another issuer fails rule 1 and an expired token fails rule 6, with different
  errors; a token without \<open>exp\<close> fails with a \<open>KeyError\<close>, which is among the listed
  failures.
\<close>

theorem rule_errors_distinct_except_azp_witness:
  "fst ((claim_rules py_urlparse sample_settings sample_now (Some ''abc123'') True ! 0)
          (sample_claims(''iss'' \<mapsto> JStr ''https://evil.example.net/'')))
     = Some (SuspiciousOperation ''Invalid issuer'')
   \<and> fst ((claim_rules py_urlparse sample_settings sample_now (Some ''abc123'') True ! 5)
          (sample_claims(''exp'' \<mapsto> JInt 999)))
     = Some (SuspiciousOperation ''Signature has expired'')
   \<and> SuspiciousOperation ''Invalid issuer'' \<noteq> SuspiciousOperation ''Signature has expired''
   \<and> fst (validate_claims py_urlparse sample_settings sample_now
            (sample_claims(''exp'' := None)) (Some ''abc123'') True)
     = Some (KeyError ''exp'')
   \<and> KeyError ''exp'' \<in> KeyError ` set [''iss'', ''aud'', ''exp'', ''iat'']"
proof -
  note inst = rule_errors_distinct_except_azp
    [where urlparse = py_urlparse and cfg = sample_settings and utc_timestamp = sample_now
       and nonce = "Some ''abc123''" and validate_nonce = True
       and utc_timestamp' = sample_now and nonce' = "Some ''abc123''" and validate_nonce' = True
       and id_token = "sample_claims(''exp'' := None)",
     OF py_urlparse_no_SuspiciousOperation]
  have a: "fst ((claim_rules py_urlparse sample_settings sample_now (Some ''abc123'') True ! 0)
                  (sample_claims(''iss'' \<mapsto> JStr ''https://evil.example.net/'')))
             = Some (SuspiciousOperation ''Invalid issuer'')"
    by (simp add: rule_lists rule_issuer_def evaluate_def raise_if_def getitem_def
        py_urlparse_sample sample_settings_get)
  have b: "fst ((claim_rules py_urlparse sample_settings sample_now (Some ''abc123'') True ! 5)
                  (sample_claims(''exp'' \<mapsto> JInt 999)))
             = Some (SuspiciousOperation ''Signature has expired'')"
    by (simp add: rule_lists rule_expiry_def evaluate_def raise_if_def getitem_def
        sample_now_def)
  have c: "fst (validate_claims py_urlparse sample_settings sample_now
                  (sample_claims(''exp'' := None)) (Some ''abc123'') True)
             = Some (KeyError ''exp'')"
    by (simp add: validate_claims_eval)
  have d: "SuspiciousOperation ''Invalid issuer'' \<noteq> SuspiciousOperation ''Signature has expired''"
    using inst [THEN conjunct2, THEN conjunct2, rule_format, of 0 5] a b by blast
  have e: "KeyError ''exp'' \<in> KeyError ` set [''iss'', ''aud'', ''exp'', ''iat'']"
    using inst [THEN conjunct1, rule_format, OF c] by (simp add: py_urlparse_no_SuspiciousOperation)
  from a b c d e show ?thesis by blast
qed

text \<open>
  Against C8 as stated: a token with two audiences and no \<open>azp\<close> fails rule 4, a token
  whose \<open>azp\<close> is another client passes rule 4 and fails rule 5, and the validator raises
  one and the same error for both.
\<close>

theorem azp_errors_equal_counterexample:
  "fst (rule_azp_present (sample_claims(''aud'' \<mapsto> two_audiences)))
     = Some (SuspiciousOperation ''Incorrect id_token: azp'')
   \<and> fst (rule_azp_present (sample_claims(''azp'' \<mapsto> JStr ''clientB'', ''aud'' \<mapsto> JList [JStr ''clientA''])))
     = None
   \<and> fst (rule_azp_match sample_settings
            (sample_claims(''azp'' \<mapsto> JStr ''clientB'', ''aud'' \<mapsto> JList [JStr ''clientA''])))
     = Some (SuspiciousOperation ''Incorrect id_token: azp'')
   \<and> fst (validate_claims py_urlparse sample_settings sample_now
            (sample_claims(''aud'' \<mapsto> two_audiences)) (Some ''abc123'') True)
     = Some (SuspiciousOperation ''Incorrect id_token: azp'')
   \<and> fst (validate_claims py_urlparse sample_settings sample_now
            (sample_claims(''azp'' \<mapsto> JStr ''clientB'')) (Some ''abc123'') True)
     = Some (SuspiciousOperation ''Incorrect id_token: azp'')
   \<and> fst (validate_claims py_urlparse sample_settings sample_now
            (sample_claims(''aud'' \<mapsto> two_audiences)) (Some ''abc123'') True)
     = fst (validate_claims py_urlparse sample_settings sample_now
            (sample_claims(''azp'' \<mapsto> JStr ''clientB'')) (Some ''abc123'') True)"
  by (simp add: validate_claims_eval rule_azp_present_def rule_azp_match_def)

subsection \<open>Signature verification failure\<close>

text \<open>
  C1, as the code has it: when the provider keys load and \<^verbatim>\<open>verify_compact\<close> raises a
  \<^verbatim>\<open>JWKESTException\<close> (decode error, unsupported algorithm, no matching key or
  cryptographic mismatch), \<open>validate_and_return_id_token\<close> returns \<^verbatim>\<open>None\<close>: it raises no
  error and returns no claim set, not even a partial one.
\<close>

theorem verification_failure_returns_None:
  assumes "load_from_url (PROVIDER_JWKS_ENDPOINT cfg) = Inr jwks_keys"
      and "verify_compact jws
             (jwks_keys @ [OctKey (if PROVIDER_SIGNATURE_ALG cfg = ''HS256''
                                   then CLIENT_SECRET cfg else PROVIDER_SIGNATURE_KEY cfg)])
           = Inl (JWKESTException m)"
  shows "validate_and_return_id_token load_from_url verify_compact urlparse cfg utc_timestamp
           jws nonce validate_nonce = Inr None"
  using assms by (simp add: validate_and_return_id_token_def get_jwks_keys_def)

text \<open>With the stand-in that rejects every token, the sample settings give \<^verbatim>\<open>None\<close>.\<close>

theorem verification_failure_returns_None_witness:
  "no_provider_keys (PROVIDER_JWKS_ENDPOINT sample_settings) = Inr []
   \<and> rejecting_verify_compact ''header.payload.signature'' [OctKey ''secret'']
       = Inl (JWKESTException ''BadSignature'')
   \<and> validate_and_return_id_token no_provider_keys rejecting_verify_compact py_urlparse
       sample_settings sample_now ''header.payload.signature'' (Some ''abc123'') True
     = Inr None"
proof -
  have l: "no_provider_keys (PROVIDER_JWKS_ENDPOINT sample_settings) = Inr []"
    by (simp add: no_provider_keys_def)
  have v: "rejecting_verify_compact ''header.payload.signature''
             ([] @ [OctKey (if PROVIDER_SIGNATURE_ALG sample_settings = ''HS256''
                            then CLIENT_SECRET sample_settings
                            else PROVIDER_SIGNATURE_KEY sample_settings)])
           = Inl (JWKESTException ''BadSignature'')"
    by (simp add: rejecting_verify_compact_def)
  from verification_failure_returns_None
    [where load_from_url = no_provider_keys and verify_compact = rejecting_verify_compact
       and cfg = sample_settings and jwks_keys = "[]" and jws = "''header.payload.signature''"
       and m = "''BadSignature''", OF l v]
    l
  show ?thesis by (simp add: rejecting_verify_compact_def)
qed

text \<open>
  Against C1 as stated: on a token that fails verification the function does not fail with
  an error; it returns \<^verbatim>\<open>None\<close>.
\<close>

theorem verification_failure_no_error_counterexample:
  "rejecting_verify_compact ''header.payload.signature'' [OctKey ''secret'']
     = Inl (JWKESTException ''BadSignature'')
   \<and> validate_and_return_id_token no_provider_keys rejecting_verify_compact py_urlparse
       sample_settings sample_now ''header.payload.signature'' (Some ''abc123'') True
     = Inr None
   \<and> \<not> isl (validate_and_return_id_token no_provider_keys rejecting_verify_compact py_urlparse
       sample_settings sample_now ''header.payload.signature'' (Some ''abc123'') True)"
  by (simp add: validate_and_return_id_token_def get_jwks_keys_def no_provider_keys_def
      rejecting_verify_compact_def)

end
